theory Spec2Isabelle
  imports Main "HOL-Library.Extended_Nat"
begin

section \<open>Values, records and errors (types.ts)\<close>

text \<open>
  The library is TypeScript. Strings are modelled as \<^typ>\<open>string\<close>; a character stands for a
  UTF-16 code unit below 256. A value that a caller may pass where the signature says
  \<open>string\<close> (the tests pass \<open>null\<close> under \<open>@ts-ignore\<close>) is a \<open>js_value\<close>.
\<close>

datatype js_value = JString string | JNull | JUndefined | JNumber int | JBoolean bool

fun truthy :: "js_value \<Rightarrow> bool" where
  "truthy (JString s) = (s \<noteq> [])"
| "truthy JNull = False"
| "truthy JUndefined = False"
| "truthy (JNumber n) = (n \<noteq> 0)"
| "truthy (JBoolean b) = b"

text \<open>The expression \<open>x || ''\<close>.\<close>

definition or_empty :: "js_value \<Rightarrow> js_value" where
  "or_empty x = (if truthy x then x else JString [])"

record AppVersion =
  version :: string
  releaseDate :: string
  releaseNotes :: "string option"
  bundleId :: "string option"
  packageName :: "string option"

record UpdateCheckResult =
  updateAvailable :: bool
  currentVersion :: string
  latestVersion :: string
  updateDetails :: "AppVersion option"
  versionComparison :: int

text \<open>The four fields of an App Store record that the client reads.\<close>

record AppStoreApp =
  bundleId :: string
  version :: string
  currentVersionReleaseDate :: string
  releaseNotes :: string

record AppStoreResponse =
  resultCount :: int
  results :: "AppStoreApp list"

text \<open>
  The three error classes of the library, and the two kinds of \<open>Error\<close> that the
  upstream libraries throw: an \<open>AxiosError\<close> with its message and \<open>response?.status\<close>,
  and any other \<open>Error\<close> with its message. The key of a store error is the value the
  constructor received (a string on every path but the non-string check).
\<close>

datatype js_error =
    AppStoreError string js_value "int option"
  | PlayStoreError string js_value "int option"
  | NetworkError string "js_error option"
  | AxiosError string "int option"
  | OtherError string

fun message :: "js_error \<Rightarrow> string" where
  "message (AppStoreError m k s) = m"
| "message (PlayStoreError m k s) = m"
| "message (NetworkError m c) = m"
| "message (AxiosError m s) = m"
| "message (OtherError m) = m"

fun is_AppStoreError :: "js_error \<Rightarrow> bool" where
  "is_AppStoreError (AppStoreError m k s) = True"
| "is_AppStoreError e = False"

fun is_PlayStoreError :: "js_error \<Rightarrow> bool" where
  "is_PlayStoreError (PlayStoreError m k s) = True"
| "is_PlayStoreError e = False"

fun is_NetworkError :: "js_error \<Rightarrow> bool" where
  "is_NetworkError (NetworkError m c) = True"
| "is_NetworkError e = False"

fun is_AxiosError :: "js_error \<Rightarrow> bool" where
  "is_AxiosError (AxiosError m s) = True"
| "is_AxiosError e = False"

fun statusCode :: "js_error \<Rightarrow> int option" where
  "statusCode (AppStoreError m k s) = s"
| "statusCode (PlayStoreError m k s) = s"
| "statusCode e = None"

fun originalError :: "js_error \<Rightarrow> js_error option" where
  "originalError (NetworkError m c) = c"
| "originalError e = None"

text \<open>
  What a \<open>catch\<close> clause receives: an \<open>Error\<close> object, or some other thrown value, kept
  as the text \<open>JSON.stringify\<close> gives for it.
\<close>

datatype thrown = Thrown js_error | ThrownValue string

text \<open>
  Configuration objects. An interface with optional fields is a record of options
  (\<open>None\<close>: the key is absent); \<open>Required<...>\<close> is the record of plain fields. A key that
  is present with the value \<open>undefined\<close> is outside the model, as are keys that the
  interfaces do not declare.
\<close>

record NodeMawConfig =
  timeout :: "int option"
  userAgent :: "string option"
  headers :: "(string \<rightharpoonup> string) option"
  retryEnabled :: "bool option"
  retryAttempts :: "int option"

record AppStoreConfig = NodeMawConfig +
  country :: "string option"
  includeMetadata :: "bool option"

record PlayStoreConfig = NodeMawConfig +
  language :: "string option"
  country :: "string option"
  includeMetadata :: "bool option"

record UnifiedNodeMawConfig = NodeMawConfig +
  appStore :: "AppStoreConfig option"
  playStore :: "PlayStoreConfig option"

record Required_NodeMawConfig =
  timeout :: int
  userAgent :: string
  headers :: "string \<rightharpoonup> string"
  retryEnabled :: bool
  retryAttempts :: int

record Required_AppStoreConfig = Required_NodeMawConfig +
  country :: string
  includeMetadata :: bool

record Required_PlayStoreConfig = Required_NodeMawConfig +
  language :: string
  country :: string
  includeMetadata :: bool

text \<open>
  \<open>x ?? d\<close> on an optional field, whether a key is present, and one field of
  \<open>{...old, ...new}\<close>.
\<close>

definition nullish :: "'a option \<Rightarrow> 'a \<Rightarrow> 'a" where
  "nullish x d = (case x of None \<Rightarrow> d | Some v \<Rightarrow> v)"

definition spread :: "'a \<Rightarrow> 'a option \<Rightarrow> 'a" where
  "spread old new = (case new of None \<Rightarrow> old | Some v \<Rightarrow> v)"

definition present :: "'a option \<Rightarrow> bool" where
  "present x = (case x of None \<Rightarrow> False | Some v \<Rightarrow> True)"

definition spread_opt :: "'a option \<Rightarrow> 'a option \<Rightarrow> 'a option" where
  "spread_opt old new = (case new of None \<Rightarrow> old | Some v \<Rightarrow> Some v)"

section \<open>Strings\<close>

definition is_digit :: "char \<Rightarrow> bool" where
  "is_digit c = (48 \<le> (of_char c :: nat) \<and> (of_char c :: nat) \<le> 57)"

definition is_letter :: "char \<Rightarrow> bool" where
  "is_letter c = ((65 \<le> (of_char c :: nat) \<and> (of_char c :: nat) \<le> 90)
     \<or> (97 \<le> (of_char c :: nat) \<and> (of_char c :: nat) \<le> 122))"

text \<open>The white space and line terminators that \<open>trim\<close> removes, among code units below 256.\<close>

definition is_space :: "char \<Rightarrow> bool" where
  "is_space c = ((of_char c :: nat) \<in> {9, 10, 11, 12, 13, 32, 160})"

definition trim :: "string \<Rightarrow> string" where
  "trim s = rev (dropWhile is_space (rev (dropWhile is_space s)))"

text \<open>\<open>s.includes(sub)\<close>.\<close>

fun includes_str :: "string \<Rightarrow> string \<Rightarrow> bool" where
  "includes_str [] sub = (sub = [])"
| "includes_str (c # cs) sub = (take (length sub) (c # cs) = sub \<or> includes_str cs sub)"

text \<open>\<open>s.replace(pat, rep)\<close> with a string pattern: the first occurrence only.\<close>

fun replace :: "string \<Rightarrow> string \<Rightarrow> string \<Rightarrow> string" where
  "replace [] pat rep = (if pat = [] then rep else [])"
| "replace (c # cs) pat rep =
     (if take (length pat) (c # cs) = pat then rep @ drop (length pat) (c # cs)
      else c # replace cs pat rep)"

text \<open>\<open>s.split('.')\<close>: the empty string gives one empty segment.\<close>

fun split_dot :: "string \<Rightarrow> string list" where
  "split_dot [] = [[]]"
| "split_dot (c # cs) =
     (if c = CHR ''.'' then [] # split_dot cs
      else (case split_dot cs of [] \<Rightarrow> [[c]] | s # ss \<Rightarrow> (c # s) # ss))"

text \<open>The decimal text of an integer, as a template literal prints it (below \<open>10^21\<close>).\<close>

definition digit_char :: "nat \<Rightarrow> char" where
  "digit_char d = ''0123456789'' ! d"

function show_nat :: "nat \<Rightarrow> string" where
  "show_nat n =
     (if n < 10 then [digit_char n]
      else show_nat (n div 10) @ [digit_char (n mod 10)])"
  by pat_completeness auto
termination
  by (relation "measure id") auto

declare show_nat.simps [simp del]

definition show_int :: "int \<Rightarrow> string" where
  "show_int i = (if i < 0 then CHR ''-'' # show_nat (nat (- i)) else show_nat (nat i))"

section \<open>The version comparator (types.ts, \<open>compareVersions\<close>)\<close>

text \<open>\<open>v.replace(/[^0-9.]/g, '')\<close>.\<close>

definition clean :: "string \<Rightarrow> string" where
  "clean v = filter (\<lambda>c. is_digit c \<or> c = CHR ''.'') v"

text \<open>
  \<open>Number(s)\<close> is applied to the segments of a cleaned string only, which are strings of
  decimal digits. On such a string it is the IEEE-754 double nearest to the decimal value
  (ties to even, overflow to \<open>Infinity\<close>); the empty string gives 0. A double that is a
  non-negative integer or \<open>Infinity\<close> is kept as an \<^typ>\<open>enat\<close>. Up to 20 significant
  digits the language fixes this value; beyond that it lets an engine round the later
  digits first, and the engine of Node gives the nearest double all the same.
\<close>

definition decimal_value :: "string \<Rightarrow> nat" where
  "decimal_value s = foldl (\<lambda>n c. 10 * n + (of_char c - 48)) 0 s"

function bit_length :: "nat \<Rightarrow> nat" where
  "bit_length n = (if n = 0 then 0 else Suc (bit_length (n div 2)))"
  by pat_completeness auto
termination
  by (relation "measure id") auto

declare bit_length.simps [simp del]

definition to_double :: "nat \<Rightarrow> enat" where
  "to_double n =
     (if n < 2 ^ 53 then enat n
      else let e = bit_length n - 53;
               q = n div 2 ^ e;
               r = n mod 2 ^ e;
               half = 2 ^ (e - 1);
               m = (if half < r \<or> (r = half \<and> odd q) then q + 1 else q);
               v = m * 2 ^ e
           in if 2 ^ 1024 \<le> v then \<infinity> else enat v)"

definition Number :: "string \<Rightarrow> enat" where
  "Number s = to_double (decimal_value s)"

text \<open>\<open>parts[i] || 0\<close>: past the end the element is \<open>undefined\<close>, and 0 is falsy.\<close>

definition part_at :: "enat list \<Rightarrow> nat \<Rightarrow> enat" where
  "part_at parts i = (if i < length parts \<and> parts ! i \<noteq> 0 then parts ! i else 0)"

function compare_loop :: "enat list \<Rightarrow> enat list \<Rightarrow> nat \<Rightarrow> nat \<Rightarrow> int" where
  "compare_loop parts1 parts2 maxLength i =
     (if i < maxLength then
        (let part1 = part_at parts1 i; part2 = part_at parts2 i
         in if part1 < part2 then - 1
            else if part1 > part2 then 1
            else compare_loop parts1 parts2 maxLength (i + 1))
      else 0)"
  by pat_completeness auto
termination
  by (relation "measure (\<lambda>(parts1, parts2, maxLength, i). maxLength - i)") auto

declare compare_loop.simps [simp del]

definition compareVersions :: "string \<Rightarrow> string \<Rightarrow> int" where
  "compareVersions version1 version2 =
     (if version1 = version2 then 0
      else if version1 = ''Unknown'' \<or> version1 = ''VARY'' then - 1
      else if version2 = ''Unknown'' \<or> version2 = ''VARY'' then 1
      else
        (let cleanVersion1 = clean version1;
             cleanVersion2 = clean version2;
             parts1 = map Number (split_dot cleanVersion1);
             parts2 = map Number (split_dot cleanVersion2);
             maxLength = max (length parts1) (length parts2)
         in compare_loop parts1 parts2 maxLength 0))"

subsection \<open>The reference algorithm of the specification\<close>

text \<open>
  Section 4.1 of the specification, step by step, with the parsing of a segment left as
  a parameter: equal strings give 0; a sentinel on the left gives -1, on the right 1;
  otherwise both strings are stripped and split, each segment is parsed, a missing
  segment counts as 0, and the first difference from the left decides.
\<close>

fun spec_compare_segments :: "('n::{linorder,zero}) list \<Rightarrow> 'n list \<Rightarrow> int" where
  "spec_compare_segments [] [] = 0"
| "spec_compare_segments (x # xs) [] =
     (if x < 0 then - 1 else if 0 < x then 1 else spec_compare_segments xs [])"
| "spec_compare_segments [] (y # ys) =
     (if 0 < y then - 1 else if y < 0 then 1 else spec_compare_segments [] ys)"
| "spec_compare_segments (x # xs) (y # ys) =
     (if x < y then - 1 else if y < x then 1 else spec_compare_segments xs ys)"

definition spec_sentinel :: "string \<Rightarrow> bool" where
  "spec_sentinel v = (v \<in> {''Unknown'', ''VARY''})"

definition spec_compareVersions ::
  "(string \<Rightarrow> 'n::{linorder,zero}) \<Rightarrow> string \<Rightarrow> string \<Rightarrow> int" where
  "spec_compareVersions parse a b =
     (if a = b then 0
      else if spec_sentinel a then - 1
      else if spec_sentinel b then 1
      else spec_compare_segments (map parse (split_dot (clean a)))
             (map parse (split_dot (clean b))))"

text \<open>Every segment of both cleaned strings has a value that a double holds exactly.\<close>

definition segments_exact :: "string \<Rightarrow> string \<Rightarrow> bool" where
  "segments_exact a b =
     list_all (\<lambda>s. decimal_value s < 2 ^ 53) (split_dot (clean a) @ split_dot (clean b))"

section \<open>The retry loop's observable effects\<close>

text \<open>
  A call of \<open>getVersion\<close> is observed through the number of requests it made to its
  backend and the delays, in milliseconds, that it passed to \<open>setTimeout\<close>, in order.
  The backend is an oracle: the outcome of the n-th request of the call, for n from 1.
  \<open>retryAttempts\<close> is a count, an integer. A wait is the delay that the code asks of the
  timer; how long the platform then sleeps is outside the model.
\<close>

record trace =
  calls :: nat
  waits :: "nat list"

definition no_trace :: trace where
  "no_trace = \<lparr>calls = 0, waits = []\<rparr>"

text \<open>\<open>statusCode && statusCode >= 400 && statusCode < 500\<close>.\<close>

definition client_error :: "int option \<Rightarrow> bool" where
  "client_error s = (case s of None \<Rightarrow> False | Some c \<Rightarrow> c \<noteq> 0 \<and> 400 \<le> c \<and> c < 500)"

section \<open>The App Store client (app-store-client.ts)\<close>

text \<open>
  The parameters \<open>bundleId\<close>, \<open>packageName\<close>, \<open>config\<close> and \<open>currentVersion\<close> of the
  source are written \<open>bundle\<close>, \<open>package\<close>, \<open>conf\<close> and \<open>current\<close>: the record fields
  hold the source's names.
\<close>

record AxiosInstance =
  timeout :: int
  headers :: "string \<rightharpoonup> string"

definition axios_create :: "'a Required_NodeMawConfig_scheme \<Rightarrow> AxiosInstance" where
  "axios_create c =
     \<lparr>AxiosInstance.timeout = Required_NodeMawConfig.timeout c,
      AxiosInstance.headers =
        [''User-Agent'' \<mapsto> Required_NodeMawConfig.userAgent c] ++ Required_NodeMawConfig.headers c\<rparr>"

record AppStoreClient =
  client :: AxiosInstance
  config :: Required_AppStoreConfig

definition AppStoreClient_new :: "AppStoreConfig \<Rightarrow> AppStoreClient" where
  "AppStoreClient_new conf =
     (let cfg =
        \<lparr>Required_NodeMawConfig.timeout = nullish (NodeMawConfig.timeout conf) 10000,
         Required_NodeMawConfig.userAgent =
           nullish (NodeMawConfig.userAgent conf) ''node-maw-appstore/1.0.0'',
         Required_NodeMawConfig.headers = nullish (NodeMawConfig.headers conf) Map.empty,
         Required_NodeMawConfig.retryEnabled = nullish (NodeMawConfig.retryEnabled conf) True,
         Required_NodeMawConfig.retryAttempts = nullish (NodeMawConfig.retryAttempts conf) 3,
         Required_AppStoreConfig.country = nullish (AppStoreConfig.country conf) ''us'',
         Required_AppStoreConfig.includeMetadata =
           nullish (AppStoreConfig.includeMetadata conf) False\<rparr>
      in \<lparr>client = axios_create cfg, AppStoreClient.config = cfg\<rparr>)"

datatype axios_result = Resolved AppStoreResponse | Rejected thrown

text \<open>The body of the \<open>try\<close> block, given the outcome of \<open>this.client.get(url)\<close>.\<close>

definition AppStore_try :: "string \<Rightarrow> axios_result \<Rightarrow> thrown + AppVersion" where
  "AppStore_try bundle r =
     (case r of
        Rejected error \<Rightarrow> Inl error
      | Resolved data \<Rightarrow>
          if resultCount data = 0 then
            Inl (Thrown (AppStoreError (''App not found: '' @ bundle) (JString bundle) (Some 404)))
          else
            (case results data of
               [] \<Rightarrow>
                 Inl (Thrown (AppStoreError (''Invalid response format for '' @ bundle)
                        (JString bundle) None))
             | app # rest \<Rightarrow>
                 Inr \<lparr>AppVersion.version = AppStoreApp.version app,
                      releaseDate = currentVersionReleaseDate app,
                      AppVersion.releaseNotes = Some (AppStoreApp.releaseNotes app),
                      AppVersion.bundleId = Some (AppStoreApp.bundleId app),
                      packageName = None\<rparr>))"

text \<open>
  The \<open>catch\<close> block, with \<open>attempts\<close> already incremented: the error to throw, or
  \<open>None\<close> when control reaches the backoff wait.
\<close>

fun AppStore_catch :: "string \<Rightarrow> int \<Rightarrow> nat \<Rightarrow> thrown \<Rightarrow> js_error option" where
  "AppStore_catch bundle maxAttempts attempts (Thrown (AppStoreError m k s)) =
     (if maxAttempts \<le> int attempts then Some (AppStoreError m k s)
      else if client_error s then Some (AppStoreError m k s)
      else None)"
| "AppStore_catch bundle maxAttempts attempts (Thrown (AxiosError m s)) =
     (if maxAttempts \<le> int attempts then
        Some (AppStoreError (''Failed to fetch App Store version: '' @ m) (JString bundle) s)
      else None)"
| "AppStore_catch bundle maxAttempts attempts (Thrown e) =
     (if maxAttempts \<le> int attempts then
        Some (NetworkError (''Network error while fetching App Store version: '' @ message e)
                (Some e))
      else None)"
| "AppStore_catch bundle maxAttempts attempts (ThrownValue v) =
     (if maxAttempts \<le> int attempts then
        Some (NetworkError ''Network error while fetching App Store version: Unknown error'' None)
      else None)"

text \<open>
  The \<open>while\<close> loop: one unfolding is one iteration, \<open>attempts\<close> is the counter at the
  head of the loop, and the last branch is the \<open>throw\<close> that follows the loop.
\<close>

function AppStore_attempts ::
  "(nat \<Rightarrow> axios_result) \<Rightarrow> string \<Rightarrow> int \<Rightarrow> nat \<Rightarrow> trace
     \<Rightarrow> (js_error + AppVersion) \<times> trace" where
  "AppStore_attempts backend bundle maxAttempts attempts tr =
     (if int attempts < maxAttempts then
        (case AppStore_try bundle (backend (attempts + 1)) of
           Inr v \<Rightarrow> (Inr v, tr\<lparr>calls := calls tr + 1\<rparr>)
         | Inl error \<Rightarrow>
             (case AppStore_catch bundle maxAttempts (attempts + 1) error of
                Some e \<Rightarrow> (Inl e, tr\<lparr>calls := calls tr + 1\<rparr>)
              | None \<Rightarrow>
                  AppStore_attempts backend bundle maxAttempts (attempts + 1)
                    (tr\<lparr>calls := calls tr + 1,
                       waits := waits tr @ [2 ^ (attempts + 1) * 1000]\<rparr>)))
      else
        (Inl (NetworkError
           (''Failed to fetch App Store version after '' @ show_int maxAttempts @ '' attempts'')
           None), tr))"
  by pat_completeness auto
termination
  by (relation "measure (\<lambda>(backend, bundle, maxAttempts, attempts, tr).
        nat (maxAttempts - int attempts))") auto

declare AppStore_attempts.simps [simp del]

definition maxAttempts_of :: "'a Required_NodeMawConfig_scheme \<Rightarrow> int" where
  "maxAttempts_of c =
     (if Required_NodeMawConfig.retryEnabled c then Required_NodeMawConfig.retryAttempts c else 1)"

definition AppStore_getVersion ::
  "AppStoreClient \<Rightarrow> (nat \<Rightarrow> axios_result) \<Rightarrow> js_value
     \<Rightarrow> (js_error + AppVersion) \<times> trace" where
  "AppStore_getVersion this backend bundle =
     (case bundle of
        JString s \<Rightarrow>
          if length (trim s) = 0 then
            (Inl (AppStoreError ''Bundle ID cannot be empty'' bundle None), no_trace)
          else AppStore_attempts backend s (maxAttempts_of (AppStoreClient.config this)) 0 no_trace
      | _ \<Rightarrow>
          (Inl (AppStoreError ''Bundle ID is required and must be a string''
                  (or_empty bundle) None), no_trace))"

definition AppStore_exists ::
  "AppStoreClient \<Rightarrow> (nat \<Rightarrow> axios_result) \<Rightarrow> js_value \<Rightarrow> (js_error + bool) \<times> trace" where
  "AppStore_exists this backend bundle =
     (case AppStore_getVersion this backend bundle of
        (Inr v, tr) \<Rightarrow> (Inr True, tr)
      | (Inl error, tr) \<Rightarrow>
          if is_AppStoreError error \<and> statusCode error = Some 404 then (Inr False, tr)
          else (Inl error, tr))"

definition AppStore_checkForUpdates ::
  "AppStoreClient \<Rightarrow> (nat \<Rightarrow> axios_result) \<Rightarrow> js_value \<Rightarrow> js_value
     \<Rightarrow> (js_error + UpdateCheckResult) \<times> trace" where
  "AppStore_checkForUpdates this backend bundle current =
     (case current of
        JString cv \<Rightarrow>
          if length (trim cv) = 0 then
            (Inl (AppStoreError ''Current version cannot be empty'' bundle None), no_trace)
          else
            (case AppStore_getVersion this backend bundle of
               (Inr latestAppInfo, tr) \<Rightarrow>
                 (let latestVersion = AppVersion.version latestAppInfo;
                      versionComparison = compareVersions cv latestVersion;
                      updateAvailable = (versionComparison < 0)
                  in (Inr \<lparr>updateAvailable = updateAvailable,
                            currentVersion = cv,
                            latestVersion = latestVersion,
                            updateDetails = (if updateAvailable then Some latestAppInfo else None),
                            versionComparison = versionComparison\<rparr>, tr))
             | (Inl error, tr) \<Rightarrow>
                 if is_AppStoreError error then (Inl error, tr)
                 else (Inl (NetworkError (''Failed to check for updates: '' @ message error)
                              (Some error)), tr))
      | _ \<Rightarrow>
          (Inl (AppStoreError ''Current version is required and must be a string'' bundle None),
           no_trace))"

definition AppStoreClient_getConfig :: "AppStoreClient \<Rightarrow> Required_AppStoreConfig" where
  "AppStoreClient_getConfig this = AppStoreClient.config this"

definition AppStoreClient_updateConfig :: "AppStoreConfig \<Rightarrow> AppStoreClient \<Rightarrow> AppStoreClient" where
  "AppStoreClient_updateConfig newConfig this =
     (let old = AppStoreClient.config this;
          cfg =
            \<lparr>Required_NodeMawConfig.timeout =
               spread (Required_NodeMawConfig.timeout old) (NodeMawConfig.timeout newConfig),
             Required_NodeMawConfig.userAgent =
               spread (Required_NodeMawConfig.userAgent old) (NodeMawConfig.userAgent newConfig),
             Required_NodeMawConfig.headers =
               spread (Required_NodeMawConfig.headers old) (NodeMawConfig.headers newConfig),
             Required_NodeMawConfig.retryEnabled =
               spread (Required_NodeMawConfig.retryEnabled old) (NodeMawConfig.retryEnabled newConfig),
             Required_NodeMawConfig.retryAttempts =
               spread (Required_NodeMawConfig.retryAttempts old)
                 (NodeMawConfig.retryAttempts newConfig),
             Required_AppStoreConfig.country =
               spread (Required_AppStoreConfig.country old) (AppStoreConfig.country newConfig),
             Required_AppStoreConfig.includeMetadata =
               spread (Required_AppStoreConfig.includeMetadata old)
                 (AppStoreConfig.includeMetadata newConfig)\<rparr>
      in \<lparr>client = axios_create cfg, AppStoreClient.config = cfg\<rparr>)"

section \<open>The Play Store client (play-store-client.ts)\<close>

record PlayStoreClient =
  config :: Required_PlayStoreConfig

definition PlayStoreClient_new :: "PlayStoreConfig \<Rightarrow> PlayStoreClient" where
  "PlayStoreClient_new conf =
     \<lparr>PlayStoreClient.config =
        \<lparr>Required_NodeMawConfig.timeout = nullish (NodeMawConfig.timeout conf) 10000,
         Required_NodeMawConfig.userAgent =
           nullish (NodeMawConfig.userAgent conf) ''node-maw-playstore/1.0.0'',
         Required_NodeMawConfig.headers = nullish (NodeMawConfig.headers conf) Map.empty,
         Required_NodeMawConfig.retryEnabled = nullish (NodeMawConfig.retryEnabled conf) True,
         Required_NodeMawConfig.retryAttempts = nullish (NodeMawConfig.retryAttempts conf) 3,
         Required_PlayStoreConfig.language = nullish (PlayStoreConfig.language conf) ''en'',
         Required_PlayStoreConfig.country = nullish (PlayStoreConfig.country conf) ''us'',
         Required_PlayStoreConfig.includeMetadata =
           nullish (PlayStoreConfig.includeMetadata conf) False\<rparr>\<rparr>"

text \<open>
  The package name pattern
  \<open>/^[a-zA-Z][a-zA-Z0-9_]*(\.[a-zA-Z][a-zA-Z0-9_]*)+$/\<close>, as the automaton that reads
  the string once: at the start of a segment or inside one, and whether a dot was seen.
\<close>

definition is_word :: "char \<Rightarrow> bool" where
  "is_word c = (is_letter c \<or> is_digit c \<or> c = CHR ''_'')"

datatype re_state = SegmentStart bool | InSegment bool

fun re_run :: "re_state \<Rightarrow> string \<Rightarrow> bool" where
  "re_run (SegmentStart dotted) [] = False"
| "re_run (InSegment dotted) [] = dotted"
| "re_run (SegmentStart dotted) (c # cs) = (is_letter c \<and> re_run (InSegment dotted) cs)"
| "re_run (InSegment dotted) (c # cs) =
     (if c = CHR ''.'' then re_run (SegmentStart True) cs
      else is_word c \<and> re_run (InSegment dotted) cs)"

definition package_name_test :: "string \<Rightarrow> bool" where
  "package_name_test s = re_run (SegmentStart False) s"

text \<open>
  The identifier grammar in the words of the specification: at least two segments
  between dots, each of letters, digits and underscores and starting with a letter.
\<close>

definition spec_segment :: "string \<Rightarrow> bool" where
  "spec_segment seg = (case seg of [] \<Rightarrow> False | c # cs \<Rightarrow> is_letter c \<and> list_all is_word cs)"

definition spec_identifier :: "string \<Rightarrow> bool" where
  "spec_identifier s = (2 \<le> length (split_dot s) \<and> list_all spec_segment (split_dot s))"

text \<open>
  What \<open>gplay.app\<close> gives: an object (of which the client reads three fields), a falsy
  value, or it throws. \<open>formatPlayStoreDate\<close> reads the clock and the date parser, and
  is a parameter of the model.
\<close>

datatype updated = UpdatedNumber int | UpdatedString string | UpdatedUndefined

record PlayAppDetails =
  version :: "string option"
  updated :: updated
  recentChanges :: "string option"

datatype gplay_result = Returned "PlayAppDetails option" | Threw thrown

text \<open>\<open>x || 'Unknown'\<close> and \<open>x || undefined\<close> on an optional string.\<close>

definition or_unknown :: "string option \<Rightarrow> string" where
  "or_unknown x = (case x of None \<Rightarrow> ''Unknown'' | Some s \<Rightarrow> if s = [] then ''Unknown'' else s)"

definition or_undefined :: "string option \<Rightarrow> string option" where
  "or_undefined x = (case x of None \<Rightarrow> None | Some s \<Rightarrow> if s = [] then None else Some s)"

definition PlayStore_try ::
  "(updated \<Rightarrow> string) \<Rightarrow> string \<Rightarrow> gplay_result \<Rightarrow> thrown + AppVersion" where
  "PlayStore_try formatPlayStoreDate package r =
     (case r of
        Threw error \<Rightarrow> Inl error
      | Returned None \<Rightarrow>
          Inl (Thrown (PlayStoreError (''App not found: '' @ package) (JString package) (Some 404)))
      | Returned (Some appDetails) \<Rightarrow>
          Inr \<lparr>AppVersion.version = or_unknown (PlayAppDetails.version appDetails),
               releaseDate = formatPlayStoreDate (updated appDetails),
               AppVersion.releaseNotes = or_undefined (recentChanges appDetails),
               AppVersion.bundleId = None,
               packageName = Some package\<rparr>)"

text \<open>The \<open>catch\<close> block once \<open>attempts >= maxAttempts\<close>: the error it throws.\<close>

fun PlayStore_catch :: "string \<Rightarrow> thrown \<Rightarrow> js_error" where
  "PlayStore_catch package (Thrown error) =
     (if includes_str (message error) ''not found'' \<or> includes_str (message error) ''404'' then
        PlayStoreError (''App not found: '' @ package) (JString package) (Some 404)
      else if includes_str (message error) ''network'' \<or> includes_str (message error) ''timeout''
      then
        NetworkError (''Network error while fetching Play Store version: '' @ message error)
          (Some error)
      else
        PlayStoreError (''Failed to fetch Play Store version: '' @ message error)
          (JString package) None)"
| "PlayStore_catch package (ThrownValue v) =
     NetworkError (''Unknown error while fetching Play Store version: '' @ v) None"

function PlayStore_attempts ::
  "(updated \<Rightarrow> string) \<Rightarrow> (nat \<Rightarrow> gplay_result) \<Rightarrow> string \<Rightarrow> int \<Rightarrow> nat \<Rightarrow> trace
     \<Rightarrow> (js_error + AppVersion) \<times> trace" where
  "PlayStore_attempts formatPlayStoreDate backend package maxAttempts attempts tr =
     (if int attempts < maxAttempts then
        (case PlayStore_try formatPlayStoreDate package (backend (attempts + 1)) of
           Inr v \<Rightarrow> (Inr v, tr\<lparr>calls := calls tr + 1\<rparr>)
         | Inl error \<Rightarrow>
             if maxAttempts \<le> int (attempts + 1) then
               (Inl (PlayStore_catch package error), tr\<lparr>calls := calls tr + 1\<rparr>)
             else
               PlayStore_attempts formatPlayStoreDate backend package maxAttempts (attempts + 1)
                 (tr\<lparr>calls := calls tr + 1,
                    waits := waits tr @ [2 ^ (attempts + 1) * 1000]\<rparr>))
      else
        (Inl (NetworkError
           (''Failed to fetch Play Store version after '' @ show_int maxAttempts @ '' attempts'')
           None), tr))"
  by pat_completeness auto
termination
  by (relation "measure (\<lambda>(formatPlayStoreDate, backend, package, maxAttempts, attempts, tr).
        nat (maxAttempts - int attempts))") auto

declare PlayStore_attempts.simps [simp del]

definition PlayStore_getVersion ::
  "(updated \<Rightarrow> string) \<Rightarrow> PlayStoreClient \<Rightarrow> (nat \<Rightarrow> gplay_result) \<Rightarrow> js_value
     \<Rightarrow> (js_error + AppVersion) \<times> trace" where
  "PlayStore_getVersion formatPlayStoreDate this backend package =
     (case package of
        JString s \<Rightarrow>
          if length (trim s) = 0 then
            (Inl (PlayStoreError ''Package name cannot be empty'' package None), no_trace)
          else if \<not> package_name_test s then
            (Inl (PlayStoreError
                    (''Invalid package name format: '' @ s @ ''. Expected format: com.example.app'')
                    package None), no_trace)
          else
            PlayStore_attempts formatPlayStoreDate backend s
              (maxAttempts_of (PlayStoreClient.config this)) 0 no_trace
      | _ \<Rightarrow>
          (Inl (PlayStoreError ''Package name is required and must be a string''
                  (or_empty package) None), no_trace))"

definition PlayStore_exists ::
  "(updated \<Rightarrow> string) \<Rightarrow> PlayStoreClient \<Rightarrow> (nat \<Rightarrow> gplay_result) \<Rightarrow> js_value
     \<Rightarrow> (js_error + bool) \<times> trace" where
  "PlayStore_exists formatPlayStoreDate this backend package =
     (case PlayStore_getVersion formatPlayStoreDate this backend package of
        (Inr v, tr) \<Rightarrow> (Inr True, tr)
      | (Inl error, tr) \<Rightarrow>
          if is_PlayStoreError error \<and> statusCode error = Some 404 then (Inr False, tr)
          else (Inl error, tr))"

definition PlayStore_checkForUpdates ::
  "(updated \<Rightarrow> string) \<Rightarrow> PlayStoreClient \<Rightarrow> (nat \<Rightarrow> gplay_result) \<Rightarrow> js_value \<Rightarrow> js_value
     \<Rightarrow> (js_error + UpdateCheckResult) \<times> trace" where
  "PlayStore_checkForUpdates formatPlayStoreDate this backend package current =
     (case current of
        JString cv \<Rightarrow>
          if length (trim cv) = 0 then
            (Inl (PlayStoreError ''Current version cannot be empty'' package None), no_trace)
          else
            (case PlayStore_getVersion formatPlayStoreDate this backend package of
               (Inr latestAppInfo, tr) \<Rightarrow>
                 (let latestVersion = AppVersion.version latestAppInfo;
                      versionComparison = compareVersions cv latestVersion;
                      updateAvailable = (versionComparison < 0)
                  in (Inr \<lparr>updateAvailable = updateAvailable,
                            currentVersion = cv,
                            latestVersion = latestVersion,
                            updateDetails = (if updateAvailable then Some latestAppInfo else None),
                            versionComparison = versionComparison\<rparr>, tr))
             | (Inl error, tr) \<Rightarrow>
                 if is_PlayStoreError error then (Inl error, tr)
                 else (Inl (NetworkError (''Failed to check for updates: '' @ message error)
                              (Some error)), tr))
      | _ \<Rightarrow>
          (Inl (PlayStoreError ''Current version is required and must be a string'' package None),
           no_trace))"

definition PlayStoreClient_getConfig :: "PlayStoreClient \<Rightarrow> Required_PlayStoreConfig" where
  "PlayStoreClient_getConfig this = PlayStoreClient.config this"

definition PlayStoreClient_updateConfig ::
  "PlayStoreConfig \<Rightarrow> PlayStoreClient \<Rightarrow> PlayStoreClient" where
  "PlayStoreClient_updateConfig newConfig this =
     (let old = PlayStoreClient.config this
      in \<lparr>PlayStoreClient.config =
           \<lparr>Required_NodeMawConfig.timeout =
              spread (Required_NodeMawConfig.timeout old) (NodeMawConfig.timeout newConfig),
            Required_NodeMawConfig.userAgent =
              spread (Required_NodeMawConfig.userAgent old) (NodeMawConfig.userAgent newConfig),
            Required_NodeMawConfig.headers =
              spread (Required_NodeMawConfig.headers old) (NodeMawConfig.headers newConfig),
            Required_NodeMawConfig.retryEnabled =
              spread (Required_NodeMawConfig.retryEnabled old) (NodeMawConfig.retryEnabled newConfig),
            Required_NodeMawConfig.retryAttempts =
              spread (Required_NodeMawConfig.retryAttempts old)
                (NodeMawConfig.retryAttempts newConfig),
            Required_PlayStoreConfig.language =
              spread (Required_PlayStoreConfig.language old) (PlayStoreConfig.language newConfig),
            Required_PlayStoreConfig.country =
              spread (Required_PlayStoreConfig.country old) (PlayStoreConfig.country newConfig),
            Required_PlayStoreConfig.includeMetadata =
              spread (Required_PlayStoreConfig.includeMetadata old)
                (PlayStoreConfig.includeMetadata newConfig)\<rparr>\<rparr>)"

section \<open>The unified facade (index.ts)\<close>

record NodeMaw =
  appStoreClient :: AppStoreClient
  playStoreClient :: PlayStoreClient
  config :: Required_NodeMawConfig

text \<open>
  The object literals \<open>{...this.config, userAgent: ua, ...override}\<close> of the constructor
  and \<open>{...this.config, ...override}\<close> of \<open>updateConfig\<close>, where the override may be
  \<open>undefined\<close>: the five shared keys are present, a store key only if the override has it.
\<close>

definition AppStoreConfig_literal ::
  "Required_NodeMawConfig \<Rightarrow> string \<Rightarrow> AppStoreConfig option \<Rightarrow> AppStoreConfig" where
  "AppStoreConfig_literal c ua override =
     \<lparr>NodeMawConfig.timeout =
        spread_opt (Some (Required_NodeMawConfig.timeout c))
          (Option.bind override NodeMawConfig.timeout),
      NodeMawConfig.userAgent = spread_opt (Some ua) (Option.bind override NodeMawConfig.userAgent),
      NodeMawConfig.headers =
        spread_opt (Some (Required_NodeMawConfig.headers c))
          (Option.bind override NodeMawConfig.headers),
      NodeMawConfig.retryEnabled =
        spread_opt (Some (Required_NodeMawConfig.retryEnabled c))
          (Option.bind override NodeMawConfig.retryEnabled),
      NodeMawConfig.retryAttempts =
        spread_opt (Some (Required_NodeMawConfig.retryAttempts c))
          (Option.bind override NodeMawConfig.retryAttempts),
      AppStoreConfig.country = spread_opt None (Option.bind override AppStoreConfig.country),
      AppStoreConfig.includeMetadata =
        spread_opt None (Option.bind override AppStoreConfig.includeMetadata)\<rparr>"

definition PlayStoreConfig_literal ::
  "Required_NodeMawConfig \<Rightarrow> string \<Rightarrow> PlayStoreConfig option \<Rightarrow> PlayStoreConfig" where
  "PlayStoreConfig_literal c ua override =
     \<lparr>NodeMawConfig.timeout =
        spread_opt (Some (Required_NodeMawConfig.timeout c))
          (Option.bind override NodeMawConfig.timeout),
      NodeMawConfig.userAgent = spread_opt (Some ua) (Option.bind override NodeMawConfig.userAgent),
      NodeMawConfig.headers =
        spread_opt (Some (Required_NodeMawConfig.headers c))
          (Option.bind override NodeMawConfig.headers),
      NodeMawConfig.retryEnabled =
        spread_opt (Some (Required_NodeMawConfig.retryEnabled c))
          (Option.bind override NodeMawConfig.retryEnabled),
      NodeMawConfig.retryAttempts =
        spread_opt (Some (Required_NodeMawConfig.retryAttempts c))
          (Option.bind override NodeMawConfig.retryAttempts),
      PlayStoreConfig.language = spread_opt None (Option.bind override PlayStoreConfig.language),
      PlayStoreConfig.country = spread_opt None (Option.bind override PlayStoreConfig.country),
      PlayStoreConfig.includeMetadata =
        spread_opt None (Option.bind override PlayStoreConfig.includeMetadata)\<rparr>"

definition NodeMaw_new :: "UnifiedNodeMawConfig \<Rightarrow> NodeMaw" where
  "NodeMaw_new conf =
     (let cfg =
        \<lparr>Required_NodeMawConfig.timeout = nullish (NodeMawConfig.timeout conf) 10000,
         Required_NodeMawConfig.userAgent = nullish (NodeMawConfig.userAgent conf) ''node-maw/1.0.0'',
         Required_NodeMawConfig.headers = nullish (NodeMawConfig.headers conf) Map.empty,
         Required_NodeMawConfig.retryEnabled = nullish (NodeMawConfig.retryEnabled conf) True,
         Required_NodeMawConfig.retryAttempts = nullish (NodeMawConfig.retryAttempts conf) 3\<rparr>;
          appStoreConfig =
            AppStoreConfig_literal cfg
              (replace (Required_NodeMawConfig.userAgent cfg) ''node-maw'' ''node-maw-appstore'')
              (appStore conf);
          playStoreConfig =
            PlayStoreConfig_literal cfg
              (replace (Required_NodeMawConfig.userAgent cfg) ''node-maw'' ''node-maw-playstore'')
              (playStore conf)
      in \<lparr>appStoreClient = AppStoreClient_new appStoreConfig,
          playStoreClient = PlayStoreClient_new playStoreConfig,
          NodeMaw.config = cfg\<rparr>)"

definition NodeMaw_getConfig :: "NodeMaw \<Rightarrow> Required_NodeMawConfig" where
  "NodeMaw_getConfig this = NodeMaw.config this"

text \<open>
  \<open>Object.keys(newConfig).some(key => !['appStore', 'playStore'].includes(key))\<close>: one
  of the shared keys is present.
\<close>

definition some_shared_key :: "'a NodeMawConfig_scheme \<Rightarrow> bool" where
  "some_shared_key newConfig =
     (present (NodeMawConfig.timeout newConfig) \<or> present (NodeMawConfig.userAgent newConfig)
      \<or> present (NodeMawConfig.headers newConfig) \<or> present (NodeMawConfig.retryEnabled newConfig)
      \<or> present (NodeMawConfig.retryAttempts newConfig))"

text \<open>
  \<open>updateConfig\<close> returns the new facade and, in order, the calls it made to the
  \<open>updateConfig\<close> of its clients, each with the configuration it passed.
\<close>

datatype push = PushAppStore AppStoreConfig | PushPlayStore PlayStoreConfig

definition NodeMaw_updateConfig :: "UnifiedNodeMawConfig \<Rightarrow> NodeMaw \<Rightarrow> NodeMaw \<times> push list" where
  "NodeMaw_updateConfig newConfig this =
     (let old = NodeMaw.config this;
          cfg =
            \<lparr>Required_NodeMawConfig.timeout =
               spread (Required_NodeMawConfig.timeout old) (NodeMawConfig.timeout newConfig),
             Required_NodeMawConfig.userAgent =
               spread (Required_NodeMawConfig.userAgent old) (NodeMawConfig.userAgent newConfig),
             Required_NodeMawConfig.headers =
               spread (Required_NodeMawConfig.headers old) (NodeMawConfig.headers newConfig),
             Required_NodeMawConfig.retryEnabled =
               spread (Required_NodeMawConfig.retryEnabled old) (NodeMawConfig.retryEnabled newConfig),
             Required_NodeMawConfig.retryAttempts =
               spread (Required_NodeMawConfig.retryAttempts old)
                 (NodeMawConfig.retryAttempts newConfig)\<rparr>;
          appStoreConfig =
            AppStoreConfig_literal cfg (Required_NodeMawConfig.userAgent cfg) (appStore newConfig);
          playStoreConfig =
            PlayStoreConfig_literal cfg (Required_NodeMawConfig.userAgent cfg) (playStore newConfig);
          toAppStore = (present (appStore newConfig) \<or> some_shared_key newConfig);
          toPlayStore = (present (playStore newConfig) \<or> some_shared_key newConfig)
      in (\<lparr>appStoreClient =
             (if toAppStore then AppStoreClient_updateConfig appStoreConfig (appStoreClient this)
              else appStoreClient this),
           playStoreClient =
             (if toPlayStore then PlayStoreClient_updateConfig playStoreConfig (playStoreClient this)
              else playStoreClient this),
           NodeMaw.config = cfg\<rparr>,
          (if toAppStore then [PushAppStore appStoreConfig] else [])
          @ (if toPlayStore then [PushPlayStore playStoreConfig] else [])))"

text \<open>The default instances that index.ts exports, each built from the empty object.\<close>

definition empty_AppStoreConfig :: AppStoreConfig where
  "empty_AppStoreConfig =
     \<lparr>NodeMawConfig.timeout = None, NodeMawConfig.userAgent = None, NodeMawConfig.headers = None,
      NodeMawConfig.retryEnabled = None, NodeMawConfig.retryAttempts = None,
      AppStoreConfig.country = None, AppStoreConfig.includeMetadata = None\<rparr>"

definition empty_PlayStoreConfig :: PlayStoreConfig where
  "empty_PlayStoreConfig =
     \<lparr>NodeMawConfig.timeout = None, NodeMawConfig.userAgent = None, NodeMawConfig.headers = None,
      NodeMawConfig.retryEnabled = None, NodeMawConfig.retryAttempts = None,
      PlayStoreConfig.language = None, PlayStoreConfig.country = None,
      PlayStoreConfig.includeMetadata = None\<rparr>"

definition empty_UnifiedNodeMawConfig :: UnifiedNodeMawConfig where
  "empty_UnifiedNodeMawConfig =
     \<lparr>NodeMawConfig.timeout = None, NodeMawConfig.userAgent = None, NodeMawConfig.headers = None,
      NodeMawConfig.retryEnabled = None, NodeMawConfig.retryAttempts = None,
      appStore = None, playStore = None\<rparr>"

definition AppStore :: AppStoreClient where
  "AppStore = AppStoreClient_new empty_AppStoreConfig"

definition PlayStore :: PlayStoreClient where
  "PlayStore = PlayStoreClient_new empty_PlayStoreConfig"

subsection \<open>The configuration merge in the words of the specification\<close>

text \<open>
  A store client's configuration at construction: the store's defaults, overridden by
  the shared fields that the caller gave (the user agent with the store's token in place
  of the shared one), overridden by the store's own override.
\<close>

definition spec_AppStore_defaults :: Required_AppStoreConfig where
  "spec_AppStore_defaults =
     \<lparr>Required_NodeMawConfig.timeout = 10000,
      Required_NodeMawConfig.userAgent = ''node-maw-appstore/1.0.0'',
      Required_NodeMawConfig.headers = Map.empty,
      Required_NodeMawConfig.retryEnabled = True,
      Required_NodeMawConfig.retryAttempts = 3,
      Required_AppStoreConfig.country = ''us'',
      Required_AppStoreConfig.includeMetadata = False\<rparr>"

definition spec_PlayStore_defaults :: Required_PlayStoreConfig where
  "spec_PlayStore_defaults =
     \<lparr>Required_NodeMawConfig.timeout = 10000,
      Required_NodeMawConfig.userAgent = ''node-maw-playstore/1.0.0'',
      Required_NodeMawConfig.headers = Map.empty,
      Required_NodeMawConfig.retryEnabled = True,
      Required_NodeMawConfig.retryAttempts = 3,
      Required_PlayStoreConfig.language = ''en'',
      Required_PlayStoreConfig.country = ''us'',
      Required_PlayStoreConfig.includeMetadata = False\<rparr>"

definition spec_override_shared ::
  "'a NodeMawConfig_scheme \<Rightarrow> (string \<Rightarrow> string) \<Rightarrow> 'b Required_NodeMawConfig_scheme
     \<Rightarrow> 'b Required_NodeMawConfig_scheme" where
  "spec_override_shared given agent base =
     base\<lparr>Required_NodeMawConfig.timeout :=
            spread (Required_NodeMawConfig.timeout base) (NodeMawConfig.timeout given),
          Required_NodeMawConfig.userAgent :=
            spread (Required_NodeMawConfig.userAgent base)
              (map_option agent (NodeMawConfig.userAgent given)),
          Required_NodeMawConfig.headers :=
            spread (Required_NodeMawConfig.headers base) (NodeMawConfig.headers given),
          Required_NodeMawConfig.retryEnabled :=
            spread (Required_NodeMawConfig.retryEnabled base) (NodeMawConfig.retryEnabled given),
          Required_NodeMawConfig.retryAttempts :=
            spread (Required_NodeMawConfig.retryAttempts base) (NodeMawConfig.retryAttempts given)\<rparr>"

definition spec_override_AppStore ::
  "AppStoreConfig option \<Rightarrow> Required_AppStoreConfig \<Rightarrow> Required_AppStoreConfig" where
  "spec_override_AppStore override base =
     (case override of
        None \<Rightarrow> base
      | Some ov \<Rightarrow>
          (spec_override_shared ov (\<lambda>ua. ua) base)
            \<lparr>Required_AppStoreConfig.country :=
               spread (Required_AppStoreConfig.country base) (AppStoreConfig.country ov),
             Required_AppStoreConfig.includeMetadata :=
               spread (Required_AppStoreConfig.includeMetadata base)
                 (AppStoreConfig.includeMetadata ov)\<rparr>)"

definition spec_override_PlayStore ::
  "PlayStoreConfig option \<Rightarrow> Required_PlayStoreConfig \<Rightarrow> Required_PlayStoreConfig" where
  "spec_override_PlayStore override base =
     (case override of
        None \<Rightarrow> base
      | Some ov \<Rightarrow>
          (spec_override_shared ov (\<lambda>ua. ua) base)
            \<lparr>Required_PlayStoreConfig.language :=
               spread (Required_PlayStoreConfig.language base) (PlayStoreConfig.language ov),
             Required_PlayStoreConfig.country :=
               spread (Required_PlayStoreConfig.country base) (PlayStoreConfig.country ov),
             Required_PlayStoreConfig.includeMetadata :=
               spread (Required_PlayStoreConfig.includeMetadata base)
                 (PlayStoreConfig.includeMetadata ov)\<rparr>)"

definition spec_AppStore_config :: "UnifiedNodeMawConfig \<Rightarrow> Required_AppStoreConfig" where
  "spec_AppStore_config conf =
     spec_override_AppStore (appStore conf)
       (spec_override_shared conf (\<lambda>ua. replace ua ''node-maw'' ''node-maw-appstore'')
          spec_AppStore_defaults)"

definition spec_PlayStore_config :: "UnifiedNodeMawConfig \<Rightarrow> Required_PlayStoreConfig" where
  "spec_PlayStore_config conf =
     spec_override_PlayStore (playStore conf)
       (spec_override_shared conf (\<lambda>ua. replace ua ''node-maw'' ''node-maw-playstore'')
          spec_PlayStore_defaults)"

section \<open>Properties of the version comparator\<close>

lemma split_dot_not_Nil: "split_dot cs \<noteq> []"
  by (induction cs) (auto split: list.splits)

text \<open>\<open>Number\<close> is applied to strings of digits only.\<close>

lemma split_dot_segments:
  "seg \<in> set (split_dot s) \<Longrightarrow> set seg \<subseteq> set s - {CHR ''.''}"
proof (induction s arbitrary: seg)
  case Nil
  then show ?case by simp
next
  case (Cons c cs)
  obtain g gs where sp: "split_dot cs = g # gs"
    using split_dot_not_Nil [of cs] by (cases "split_dot cs") auto
  show ?case
  proof (cases "c = CHR ''.''")
    case True
    with Cons show ?thesis by auto
  next
    case False
    with Cons.prems sp have "seg = c # g \<or> seg \<in> set gs" by simp
    then show ?thesis
    proof
      assume "seg = c # g"
      moreover have "set g \<subseteq> set cs - {CHR ''.''}"
        using Cons.IH [of g] sp by simp
      ultimately show ?thesis using False by auto
    next
      assume "seg \<in> set gs"
      then have "set seg \<subseteq> set cs - {CHR ''.''}"
        using Cons.IH [of seg] sp by simp
      then show ?thesis by auto
    qed
  qed
qed

lemma clean_segments_digits:
  "seg \<in> set (split_dot (clean v)) \<Longrightarrow> list_all is_digit seg"
proof -
  assume "seg \<in> set (split_dot (clean v))"
  then have "set seg \<subseteq> set (clean v) - {CHR ''.''}"
    by (rule split_dot_segments)
  then show ?thesis
    by (auto simp: clean_def list_all_iff)
qed

lemma part_at_nth: "part_at ps i = (if i < length ps then ps ! i else 0)"
  by (simp add: part_at_def)

lemma spec_compare_segments_Nil_Nil_drop:
  "length p1 \<le> i \<Longrightarrow> length p2 \<le> i \<Longrightarrow>
   spec_compare_segments (drop i p1) (drop i p2) = 0"
  by simp

lemma compare_loop_drop:
  "maxLength = max (length parts1) (length parts2) \<Longrightarrow>
   compare_loop parts1 parts2 maxLength i
     = spec_compare_segments (drop i parts1) (drop i parts2)"
proof (induction parts1 parts2 maxLength i rule: compare_loop.induct)
  case (1 parts1 parts2 maxLength i)
  show ?case
  proof (cases "i < maxLength")
    case False
    with "1.prems" show ?thesis
      by (simp add: compare_loop.simps)
  next
    case True
    note lt = True
    have d1: "drop i parts1 = (if i < length parts1 then parts1 ! i # drop (Suc i) parts1 else [])"
      by (simp add: Cons_nth_drop_Suc)
    have d2: "drop i parts2 = (if i < length parts2 then parts2 ! i # drop (Suc i) parts2 else [])"
      by (simp add: Cons_nth_drop_Suc)
    have some: "i < length parts1 \<or> i < length parts2"
      using lt "1.prems" by auto
    show ?thesis
    proof (cases "part_at parts1 i < part_at parts2 i")
      case True
      then show ?thesis
        using lt some
        by (subst compare_loop.simps) (auto simp: part_at_nth d1 d2 Let_def split: if_splits)
    next
      case False
      note nlt = False
      show ?thesis
      proof (cases "part_at parts2 i < part_at parts1 i")
        case True
        then show ?thesis
          using lt some nlt
          by (subst compare_loop.simps) (auto simp: part_at_nth d1 d2 Let_def split: if_splits)
      next
        case False
        have ih: "compare_loop parts1 parts2 maxLength (i + 1)
                   = spec_compare_segments (drop (i + 1) parts1) (drop (i + 1) parts2)"
          using "1.IH" [OF lt refl refl nlt False "1.prems"] .
        have "compare_loop parts1 parts2 maxLength i = compare_loop parts1 parts2 maxLength (i + 1)"
          using lt nlt False by (subst compare_loop.simps) (simp add: Let_def)
        also have "\<dots> = spec_compare_segments (drop i parts1) (drop i parts2)"
          using some nlt False unfolding ih
          by (auto simp: part_at_nth d1 d2 split: if_splits)
        finally show ?thesis .
      qed
    qed
  qed
qed

lemma compare_loop_range: "compare_loop p1 p2 m i \<in> {- 1, 0, 1}"
proof (induction p1 p2 m i rule: compare_loop.induct)
  case (1 parts1 parts2 maxLength i)
  then show ?case
    by (subst compare_loop.simps) (auto simp: Let_def)
qed

lemma spec_compare_segments_enat:
  "spec_compare_segments (map enat xs) (map enat ys) = spec_compare_segments xs ys"
  by (induction xs ys rule: spec_compare_segments.induct) (auto simp: zero_enat_def)

lemma to_double_exact: "n < 2 ^ 53 \<Longrightarrow> to_double n = enat n"
  by (simp add: to_double_def)

lemma map_Number_exact:
  "list_all (\<lambda>s. decimal_value s < 2 ^ 53) ss \<Longrightarrow> map Number ss = map enat (map decimal_value ss)"
  by (induction ss) (simp_all add: Number_def to_double_exact)

lemma compareVersions_spec_Number: "compareVersions a b = spec_compareVersions Number a b"
  by (simp add: compareVersions_def spec_compareVersions_def spec_sentinel_def Let_def compare_loop_drop)

lemma compareVersions_range: "compareVersions a b \<in> {- 1, 0, 1}"
  unfolding compareVersions_def Let_def using compare_loop_range by auto

lemma compareVersions_spec_exact:
  assumes "segments_exact a b"
  shows "compareVersions a b = spec_compareVersions decimal_value a b"
proof -
  from assms have "map Number (split_dot (clean a)) = map enat (map decimal_value (split_dot (clean a)))"
    and "map Number (split_dot (clean b)) = map enat (map decimal_value (split_dot (clean b)))"
    by (simp_all add: segments_exact_def map_Number_exact)
  then show ?thesis
    unfolding compareVersions_spec_Number spec_compareVersions_def
    by (simp only: spec_compare_segments_enat)
qed

lemmas compareVersions_eval =
  compareVersions_def clean_def is_digit_def Number_def decimal_value_def to_double_def
  compare_loop.simps part_at_def Let_def zero_enat_def

lemma bit_length_2_53_1: "bit_length 9007199254740993 = 54"
  by (simp add: bit_length.simps)

lemma bit_length_2_53: "bit_length 9007199254740992 = 54"
  by (simp add: bit_length.simps)

text \<open>
  Claim C1, as amended. \<open>compareVersions\<close> always returns -1, 0 or 1 and is the reference
  algorithm of section 4.1 in which a segment is converted by \<open>Number\<close>, that is, to the
  nearest double. It is the reference algorithm with exact integer parsing whenever every
  segment of both cleaned strings is below \<open>2^53\<close>. Equal strings compare as 0, and the
  four examples of the specification hold.
\<close>

theorem compareVersions_amended:
  "compareVersions a b \<in> {- 1, 0, 1}
   \<and> compareVersions a b = spec_compareVersions Number a b
   \<and> (segments_exact a b \<longrightarrow> compareVersions a b = spec_compareVersions decimal_value a b)
   \<and> compareVersions v v = 0
   \<and> compareVersions ''1.2.0'' ''1.10.0'' = - 1
   \<and> compareVersions ''1.0'' ''1.0.0'' = 0
   \<and> compareVersions ''Unknown'' ''1.0.0'' = - 1
   \<and> compareVersions ''1.0.0'' ''Unknown'' = 1"
proof (intro conjI impI)
  show "compareVersions a b \<in> {- 1, 0, 1}"
    by (rule compareVersions_range)
  show "compareVersions a b = spec_compareVersions Number a b"
    by (rule compareVersions_spec_Number)
  show "compareVersions a b = spec_compareVersions decimal_value a b" if "segments_exact a b"
    using that by (rule compareVersions_spec_exact)
  show "compareVersions v v = 0"
    by (simp add: compareVersions_def)
  show "compareVersions ''1.2.0'' ''1.10.0'' = - 1"
    by (simp add: compareVersions_eval)
  show "compareVersions ''1.0'' ''1.0.0'' = 0"
    by (simp add: compareVersions_eval)
  show "compareVersions ''Unknown'' ''1.0.0'' = - 1"
    by (simp add: compareVersions_def)
  show "compareVersions ''1.0.0'' ''Unknown'' = 1"
    by (simp add: compareVersions_def)
qed

text \<open>The amended claim C1 at a version with a prefix and a suffix that are stripped.\<close>

theorem compareVersions_amended_witness:
  "segments_exact ''v1.2.0-beta'' ''1.10''
   \<and> compareVersions ''v1.2.0-beta'' ''1.10'' = spec_compareVersions decimal_value ''v1.2.0-beta'' ''1.10''
   \<and> compareVersions ''v1.2.0-beta'' ''1.10'' = - 1"
proof -
  have h: "segments_exact ''v1.2.0-beta'' ''1.10''"
    by (simp add: segments_exact_def clean_def is_digit_def decimal_value_def)
  have r: "compareVersions ''v1.2.0-beta'' ''1.10'' = - 1"
    by (simp add: compareVersions_eval)
  from compareVersions_amended [where a = "''v1.2.0-beta''" and b = "''1.10''" and v = "[]"] h
  have "compareVersions ''v1.2.0-beta'' ''1.10'' = spec_compareVersions decimal_value ''v1.2.0-beta'' ''1.10''"
    by blast
  with h r show ?thesis by (intro conjI)
qed

text \<open>
  Claim C1 as stated fails: \<open>2^53 + 1\<close> and \<open>2^53\<close> are the same double, so the code
  returns 0 where the comparison of the integers gives 1.
\<close>

theorem compareVersions_integer_counterexample:
  "compareVersions ''9007199254740993'' ''9007199254740992'' = 0
   \<and> spec_compareVersions decimal_value ''9007199254740993'' ''9007199254740992'' = 1"
proof
  show "compareVersions ''9007199254740993'' ''9007199254740992'' = 0"
    by (simp add: compareVersions_eval bit_length_2_53 bit_length_2_53_1)
  show "spec_compareVersions decimal_value ''9007199254740993'' ''9007199254740992'' = 1"
    by (simp add: spec_compareVersions_def spec_sentinel_def clean_def is_digit_def decimal_value_def)
qed

section \<open>The retry loops\<close>

lemma AppStore_catch_None:
  "AppStore_catch bid M a error = None \<Longrightarrow> int a < M"
  by (cases "(bid, M, a, error)" rule: AppStore_catch.cases) (auto split: if_splits)


lemma AppStore_attempts_exhausted:
  "M \<le> int a \<Longrightarrow>
   AppStore_attempts backend bid M a tr =
     (Inl (NetworkError
        (''Failed to fetch App Store version after '' @ show_int M @ '' attempts'') None), tr)"
  by (simp add: AppStore_attempts.simps)

lemma AppStore_attempts_trace:
  "calls tr + (if int a < M then 1 else 0) \<le> calls (snd (AppStore_attempts backend bid M a tr))
   \<and> int (calls (snd (AppStore_attempts backend bid M a tr))) - int (calls tr) \<le> max 0 (M - int a)
   \<and> waits (snd (AppStore_attempts backend bid M a tr))
       = waits tr @ map (\<lambda>n. 2 ^ n * 1000)
           [a + 1..<a + (calls (snd (AppStore_attempts backend bid M a tr)) - calls tr)]"
proof (induction backend bid M a tr rule: AppStore_attempts.induct)
  case (1 backend bid M a tr)
  show ?case
  proof (cases "int a < M")
    case False
    then show ?thesis by (simp add: AppStore_attempts.simps)
  next
    case lt: True
    show ?thesis
    proof (cases "AppStore_try bid (backend (a + 1))")
      case (Inr v)
      with lt show ?thesis by (simp add: AppStore_attempts.simps)
    next
      case (Inl error)
      show ?thesis
      proof (cases "AppStore_catch bid M (a + 1) error")
        case (Some e)
        with lt Inl show ?thesis by (simp add: AppStore_attempts.simps)
      next
        case None
        define f where "f = (\<lambda>n::nat. 2 ^ n * 1000 :: nat)"
        define tr' where "tr' = tr\<lparr>calls := calls tr + 1, waits := waits tr @ [2 ^ (a + 1) * 1000]\<rparr>"
        define t where "t = snd (AppStore_attempts backend bid M (a + 1) tr')"
        have more: "int (a + 1) < M"
          using AppStore_catch_None [OF None] .
        have eq: "AppStore_attempts backend bid M a tr
                  = AppStore_attempts backend bid M (a + 1) tr'"
          unfolding tr'_def using lt Inl None by (subst AppStore_attempts.simps) simp
        have ctr: "calls tr' = calls tr + 1" and wtr: "waits tr' = waits tr @ [f (a + 1)]"
          by (simp_all add: tr'_def f_def)
        from "1.IH" [OF lt Inl None]
        have ih1: "calls tr' + (if int (a + 1) < M then 1 else 0) \<le> calls t"
          and ih2: "int (calls t) - int (calls tr') \<le> max 0 (M - int (a + 1))"
          and ih3: "waits t = waits tr' @ map f [a + 1 + 1..<a + 1 + (calls t - calls tr')]"
          unfolding t_def tr'_def f_def by blast+
        have c: "calls tr + 2 \<le> calls t"
          using ih1 more ctr by simp
        have idx: "a + 1 + (calls t - calls tr') = a + (calls t - calls tr)"
          using c ctr by arith
        have lt2: "a + 1 < a + (calls t - calls tr)"
          using c by arith
        have "[a + 1..<a + (calls t - calls tr)] = (a + 1) # [a + 1 + 1..<a + (calls t - calls tr)]"
          using upt_conv_Cons [OF lt2] by simp
        then have w: "waits t = waits tr @ map f [a + 1..<a + (calls t - calls tr)]"
          unfolding ih3 idx wtr by simp
        have b: "int (calls t) - int (calls tr) \<le> max 0 (M - int a)"
          using ih2 more ctr by arith
        have c1: "calls tr + (if int a < M then 1 else 0) \<le> calls t"
          using c by simp
        show ?thesis
          unfolding eq using c1 b w unfolding t_def f_def by blast
      qed
    qed
  qed
qed



lemma PlayStore_attempts_exhausted:
  "M \<le> int a \<Longrightarrow>
   PlayStore_attempts fmt backend p M a tr =
     (Inl (NetworkError
        (''Failed to fetch Play Store version after '' @ show_int M @ '' attempts'') None), tr)"
  by (simp add: PlayStore_attempts.simps)

lemma PlayStore_attempts_trace:
  "calls tr + (if int a < M then 1 else 0) \<le> calls (snd (PlayStore_attempts fmt backend p M a tr))
   \<and> int (calls (snd (PlayStore_attempts fmt backend p M a tr))) - int (calls tr) \<le> max 0 (M - int a)
   \<and> waits (snd (PlayStore_attempts fmt backend p M a tr))
       = waits tr @ map (\<lambda>n. 2 ^ n * 1000)
           [a + 1..<a + (calls (snd (PlayStore_attempts fmt backend p M a tr)) - calls tr)]"
proof (induction fmt backend p M a tr rule: PlayStore_attempts.induct)
  case (1 fmt backend p M a tr)
  show ?case
  proof (cases "int a < M")
    case False
    then show ?thesis by (simp add: PlayStore_attempts.simps)
  next
    case lt: True
    show ?thesis
    proof (cases "PlayStore_try fmt p (backend (a + 1))")
      case (Inr v)
      with lt show ?thesis by (simp add: PlayStore_attempts.simps)
    next
      case (Inl error)
      show ?thesis
      proof (cases "M \<le> int (a + 1)")
        case True
        with lt Inl show ?thesis by (simp add: PlayStore_attempts.simps)
      next
        case False
        define f where "f = (\<lambda>n::nat. 2 ^ n * 1000 :: nat)"
        define tr' where "tr' = tr\<lparr>calls := calls tr + 1, waits := waits tr @ [2 ^ (a + 1) * 1000]\<rparr>"
        define t where "t = snd (PlayStore_attempts fmt backend p M (a + 1) tr')"
        have more: "int (a + 1) < M"
          using False by simp
        have eq: "PlayStore_attempts fmt backend p M a tr
                  = PlayStore_attempts fmt backend p M (a + 1) tr'"
          unfolding tr'_def using lt Inl False by (subst PlayStore_attempts.simps) simp
        have ctr: "calls tr' = calls tr + 1" and wtr: "waits tr' = waits tr @ [f (a + 1)]"
          by (simp_all add: tr'_def f_def)
        from "1.IH" [OF lt Inl False]
        have ih1: "calls tr' + (if int (a + 1) < M then 1 else 0) \<le> calls t"
          and ih2: "int (calls t) - int (calls tr') \<le> max 0 (M - int (a + 1))"
          and ih3: "waits t = waits tr' @ map f [a + 1 + 1..<a + 1 + (calls t - calls tr')]"
          unfolding t_def tr'_def f_def by blast+
        have c: "calls tr + 2 \<le> calls t"
          using ih1 more ctr by simp
        have idx: "a + 1 + (calls t - calls tr') = a + (calls t - calls tr)"
          using c ctr by arith
        have lt2: "a + 1 < a + (calls t - calls tr)"
          using c by arith
        have "[a + 1..<a + (calls t - calls tr)] = (a + 1) # [a + 1 + 1..<a + (calls t - calls tr)]"
          using upt_conv_Cons [OF lt2] by simp
        then have w: "waits t = waits tr @ map f [a + 1..<a + (calls t - calls tr)]"
          unfolding ih3 idx wtr by simp
        have b: "int (calls t) - int (calls tr) \<le> max 0 (M - int a)"
          using ih2 more ctr by arith
        have c1: "calls tr + (if int a < M then 1 else 0) \<le> calls t"
          using c by simp
        show ?thesis
          unfolding eq using c1 b w unfolding t_def f_def by blast
      qed
    qed
  qed
qed


text \<open>Exhaustion: the call that made all its attempts threw what its last attempt caught.\<close>

lemma PlayStore_attempts_last:
  "int a < M \<Longrightarrow>
   calls (snd (PlayStore_attempts fmt backend p M a tr)) - calls tr = nat M - a \<Longrightarrow>
   PlayStore_try fmt p (backend (nat M)) = Inl error \<Longrightarrow>
   fst (PlayStore_attempts fmt backend p M a tr) = Inl (PlayStore_catch p error)"
proof (induction fmt backend p M a tr rule: PlayStore_attempts.induct)
  case (1 fmt backend p M a tr)
  note lt = \<open>int a < M\<close>
  show ?case
  proof (cases "M \<le> int (a + 1)")
    case True
    with lt have "nat M = a + 1" by arith
    with "1.prems" lt True show ?thesis
      by (subst PlayStore_attempts.simps) simp
  next
    case False
    then have two: "2 \<le> nat M - a" by arith
    show ?thesis
    proof (cases "PlayStore_try fmt p (backend (a + 1))")
      case (Inr v)
      with lt have "calls (snd (PlayStore_attempts fmt backend p M a tr)) - calls tr = 1"
        by (subst PlayStore_attempts.simps) simp
      with "1.prems"(2) two show ?thesis by simp
    next
      case (Inl err)
      define tr' where "tr' = tr\<lparr>calls := calls tr + 1, waits := waits tr @ [2 ^ (a + 1) * 1000]\<rparr>"
      have eq: "PlayStore_attempts fmt backend p M a tr
                = PlayStore_attempts fmt backend p M (a + 1) tr'"
        unfolding tr'_def using lt Inl False by (subst PlayStore_attempts.simps) simp
      have more: "int (a + 1) < M" using False by simp
      have "calls tr' + 1 \<le> calls (snd (PlayStore_attempts fmt backend p M (a + 1) tr'))"
        using PlayStore_attempts_trace [of tr' "a + 1" M fmt backend p] more by simp
      moreover have "calls tr' = calls tr + 1" by (simp add: tr'_def)
      ultimately have "calls (snd (PlayStore_attempts fmt backend p M (a + 1) tr')) - calls tr' = nat M - (a + 1)"
        using "1.prems"(2) unfolding eq by arith
      from "1.IH" [OF lt Inl False more this [unfolded tr'_def] "1.prems"(3)]
      show ?thesis unfolding eq tr'_def .
    qed
  qed
qed

lemma AppStore_attempts_last:
  "int a < M \<Longrightarrow>
   calls (snd (AppStore_attempts backend bid M a tr)) - calls tr = nat M - a \<Longrightarrow>
   AppStore_try bid (backend (nat M)) = Inl error \<Longrightarrow>
   \<exists>e. AppStore_catch bid M (nat M) error = Some e
       \<and> fst (AppStore_attempts backend bid M a tr) = Inl e"
proof (induction backend bid M a tr rule: AppStore_attempts.induct)
  case (1 backend bid M a tr)
  note lt = \<open>int a < M\<close>
  show ?case
  proof (cases "M \<le> int (a + 1)")
    case True
    with lt have m: "nat M = a + 1" by arith
    have "\<exists>e. AppStore_catch bid M (a + 1) error = Some e"
      using True by (cases "(bid, M, a + 1, error)" rule: AppStore_catch.cases) auto
    then obtain e where e: "AppStore_catch bid M (a + 1) error = Some e" ..
    with "1.prems" lt m show ?thesis
      by (subst AppStore_attempts.simps) simp
  next
    case False
    then have two: "2 \<le> nat M - a" by arith
    show ?thesis
    proof (cases "AppStore_try bid (backend (a + 1))")
      case (Inr v)
      with lt have "calls (snd (AppStore_attempts backend bid M a tr)) - calls tr = 1"
        by (subst AppStore_attempts.simps) simp
      with "1.prems"(2) two show ?thesis by simp
    next
      case (Inl err)
      show ?thesis
      proof (cases "AppStore_catch bid M (a + 1) err")
        case (Some e')
        with lt Inl have "calls (snd (AppStore_attempts backend bid M a tr)) - calls tr = 1"
          by (subst AppStore_attempts.simps) simp
        with "1.prems"(2) two show ?thesis by simp
      next
        case None
        define tr' where "tr' = tr\<lparr>calls := calls tr + 1, waits := waits tr @ [2 ^ (a + 1) * 1000]\<rparr>"
        have eq: "AppStore_attempts backend bid M a tr
                  = AppStore_attempts backend bid M (a + 1) tr'"
          unfolding tr'_def using lt Inl None by (subst AppStore_attempts.simps) simp
        have more: "int (a + 1) < M" using False by simp
        have "calls tr' + 1 \<le> calls (snd (AppStore_attempts backend bid M (a + 1) tr'))"
          using AppStore_attempts_trace [of tr' "a + 1" M backend bid] more by simp
        moreover have "calls tr' = calls tr + 1" by (simp add: tr'_def)
        ultimately have "calls (snd (AppStore_attempts backend bid M (a + 1) tr')) - calls tr' = nat M - (a + 1)"
          using "1.prems"(2) unfolding eq by arith
        from "1.IH" [OF lt Inl None more this [unfolded tr'_def] "1.prems"(3)]
        show ?thesis unfolding eq tr'_def .
      qed
    qed
  qed
qed

section \<open>Bounded retries, backoff and the fallback\<close>

lemma no_trace_simps [simp]: "calls no_trace = 0" "waits no_trace = []"
  by (simp_all add: no_trace_def)








text \<open>
  Claim C10. With \<open>retryEnabled\<close> true and \<open>retryAttempts\<close> zero or negative, for every
  identifier that passes validation, \<open>getVersion\<close> on either client makes no request and
  throws the fallback \<open>NetworkError\<close> whose message reports the failure after
  \<open>maxAttempts\<close> attempts.
\<close>

theorem getVersion_zero_attempts_fallback:
  "(Required_NodeMawConfig.retryEnabled (AppStoreClient.config app)
      \<and> Required_NodeMawConfig.retryAttempts (AppStoreClient.config app) \<le> 0
      \<and> trim s \<noteq> [] \<longrightarrow>
    AppStore_getVersion app backendA (JString s) =
      (Inl (NetworkError (''Failed to fetch App Store version after ''
         @ show_int (Required_NodeMawConfig.retryAttempts (AppStoreClient.config app))
         @ '' attempts'') None), \<lparr>calls = 0, waits = []\<rparr>))
   \<and> (Required_NodeMawConfig.retryEnabled (PlayStoreClient.config play)
      \<and> Required_NodeMawConfig.retryAttempts (PlayStoreClient.config play) \<le> 0
      \<and> trim s \<noteq> [] \<and> package_name_test s \<longrightarrow>
    PlayStore_getVersion fmt play backendP (JString s) =
      (Inl (NetworkError (''Failed to fetch Play Store version after ''
         @ show_int (Required_NodeMawConfig.retryAttempts (PlayStoreClient.config play))
         @ '' attempts'') None), \<lparr>calls = 0, waits = []\<rparr>))"
  by (simp add: AppStore_getVersion_def PlayStore_getVersion_def maxAttempts_of_def
      AppStore_attempts_exhausted PlayStore_attempts_exhausted no_trace_def)

section \<open>Validation\<close>

lemma dot_not_letter: "\<not> is_letter CHR ''.''"
  by (simp add: is_letter_def)

lemma spec_segment_simps [simp]:
  "spec_segment [] = False"
  "spec_segment (c # cs) = (is_letter c \<and> list_all is_word cs)"
  by (simp_all add: spec_segment_def)

lemma re_run_split_dot:
  "re_run (InSegment d) cs =
     (case split_dot cs of [] \<Rightarrow> False
      | g # gs \<Rightarrow> list_all is_word g \<and> list_all spec_segment gs \<and> (d \<or> gs \<noteq> []))"
  "re_run (SegmentStart d) cs =
     (case split_dot cs of [] \<Rightarrow> False
      | g # gs \<Rightarrow> spec_segment g \<and> list_all spec_segment gs \<and> (d \<or> gs \<noteq> []))"
proof (induction cs arbitrary: d)
  case Nil
  { case 1 show ?case by simp }
  { case 2 show ?case by simp }
next
  case (Cons c cs)
  { case 1
    show ?case
    proof (cases "c = CHR ''.''")
      case True
      then show ?thesis
        using Cons.IH(2) [of True] split_dot_not_Nil [of cs]
        by (auto split: list.splits)
    next
      case False
      then show ?thesis
        using Cons.IH(1) [of d] split_dot_not_Nil [of cs]
        by (auto split: list.splits)
    qed }
  { case 2
    show ?case
    proof (cases "c = CHR ''.''")
      case True
      then show ?thesis
        by (simp add: dot_not_letter)
    next
      case False
      then show ?thesis
        using Cons.IH(1) [of d] split_dot_not_Nil [of cs]
        by (auto split: list.splits)
    qed }
qed

lemma package_name_test_spec: "package_name_test s = spec_identifier s"
proof -
  obtain g gs where sp: "split_dot s = g # gs"
    using split_dot_not_Nil [of s] by (cases "split_dot s") auto
  have "2 \<le> length (g # gs) \<longleftrightarrow> gs \<noteq> []"
    by (cases gs) auto
  then show ?thesis
    unfolding package_name_test_def spec_identifier_def re_run_split_dot(2) sp
    by auto
qed

text \<open>
  Claim C3, as amended. An identifier that is not a string, or is empty or only white
  space, makes \<open>getVersion\<close> of either client throw that store's error with no request and
  no wait. A string that is not at least two dot-separated segments of letters, digits
  and underscores, each starting with a letter, makes the Play Store client do so. The
  App Store client has no check of the format.
\<close>

theorem getVersion_validation:
  "(case i of
      JString s \<Rightarrow> True
    | _ \<Rightarrow>
        AppStore_getVersion app backendA i =
          (Inl (AppStoreError ''Bundle ID is required and must be a string'' (or_empty i) None),
           \<lparr>calls = 0, waits = []\<rparr>)
        \<and> PlayStore_getVersion fmt play backendP i =
          (Inl (PlayStoreError ''Package name is required and must be a string'' (or_empty i) None),
           \<lparr>calls = 0, waits = []\<rparr>))
   \<and> (trim s = [] \<longrightarrow>
        AppStore_getVersion app backendA (JString s) =
          (Inl (AppStoreError ''Bundle ID cannot be empty'' (JString s) None),
           \<lparr>calls = 0, waits = []\<rparr>)
        \<and> PlayStore_getVersion fmt play backendP (JString s) =
          (Inl (PlayStoreError ''Package name cannot be empty'' (JString s) None),
           \<lparr>calls = 0, waits = []\<rparr>))
   \<and> (trim s \<noteq> [] \<and> \<not> spec_identifier s \<longrightarrow>
        PlayStore_getVersion fmt play backendP (JString s) =
          (Inl (PlayStoreError
                  (''Invalid package name format: '' @ s @ ''. Expected format: com.example.app'')
                  (JString s) None),
           \<lparr>calls = 0, waits = []\<rparr>))"
proof (intro conjI impI)
  show "case i of
      JString s \<Rightarrow> True
    | _ \<Rightarrow>
        AppStore_getVersion app backendA i =
          (Inl (AppStoreError ''Bundle ID is required and must be a string'' (or_empty i) None),
           \<lparr>calls = 0, waits = []\<rparr>)
        \<and> PlayStore_getVersion fmt play backendP i =
          (Inl (PlayStoreError ''Package name is required and must be a string'' (or_empty i) None),
           \<lparr>calls = 0, waits = []\<rparr>)"
    by (cases i) (simp_all add: AppStore_getVersion_def PlayStore_getVersion_def no_trace_def)
  show "AppStore_getVersion app backendA (JString s) =
          (Inl (AppStoreError ''Bundle ID cannot be empty'' (JString s) None),
           \<lparr>calls = 0, waits = []\<rparr>)" if "trim s = []"
    using that by (simp add: AppStore_getVersion_def no_trace_def)
  show "PlayStore_getVersion fmt play backendP (JString s) =
          (Inl (PlayStoreError ''Package name cannot be empty'' (JString s) None),
           \<lparr>calls = 0, waits = []\<rparr>)" if "trim s = []"
    using that by (simp add: PlayStore_getVersion_def no_trace_def)
  show "PlayStore_getVersion fmt play backendP (JString s) =
          (Inl (PlayStoreError
                  (''Invalid package name format: '' @ s @ ''. Expected format: com.example.app'')
                  (JString s) None),
           \<lparr>calls = 0, waits = []\<rparr>)" if "trim s \<noteq> [] \<and> \<not> spec_identifier s"
    using that by (simp add: PlayStore_getVersion_def no_trace_def package_name_test_spec)
qed

lemmas client_eval =
  AppStore_def PlayStore_def AppStoreClient_new_def PlayStoreClient_new_def
  empty_AppStoreConfig_def empty_PlayStoreConfig_def nullish_def maxAttempts_of_def
  axios_create_def Let_def

lemmas string_eval =
  trim_def is_space_def is_letter_def is_digit_def is_word_def
  package_name_test_def spec_identifier_def spec_segment_def

lemmas getVersion_eval =
  AppStore_getVersion_def PlayStore_getVersion_def no_trace_def
  AppStore_attempts.simps PlayStore_attempts.simps AppStore_try_def PlayStore_try_def
  or_unknown_def or_undefined_def client_error_def

text \<open>The package names of the test suite.\<close>

lemma package_name_test_cases:
  "\<not> package_name_test ''com''"
  "\<not> package_name_test ''com.''"
  "\<not> package_name_test ''.com.example''"
  "\<not> package_name_test ''com..example''"
  "\<not> package_name_test ''123.example.app''"
  "\<not> package_name_test ''com.example.app.''"
  "\<not> package_name_test ''com.example-app''"
  "\<not> package_name_test ''com.example app''"
  "\<not> package_name_test ''com.example.app!''"
  "\<not> package_name_test ''invalid-package''"
  "package_name_test ''com.example.app''"
  "package_name_test ''com.whatsapp''"
  "package_name_test ''com.google.android.apps.maps''"
  by (simp_all add: string_eval)

text \<open>
  The amended claim C3 at a blank identifier, at a package name with a hyphen and at
  \<open>null\<close>.
\<close>

theorem getVersion_validation_witness:
  "(trim ''   '' = []
    \<and> AppStore_getVersion AppStore (\<lambda>n. Rejected (ThrownValue ''null'')) (JString ''   '') =
          (Inl (AppStoreError ''Bundle ID cannot be empty'' (JString ''   '') None),
           \<lparr>calls = 0, waits = []\<rparr>)
    \<and> PlayStore_getVersion (\<lambda>u. ''2024-01-01T00:00:00.000Z'') PlayStore
          (\<lambda>n. Threw (ThrownValue ''null'')) (JString ''   '') =
          (Inl (PlayStoreError ''Package name cannot be empty'' (JString ''   '') None),
           \<lparr>calls = 0, waits = []\<rparr>))
   \<and> (trim ''invalid-package'' \<noteq> [] \<and> \<not> spec_identifier ''invalid-package''
    \<and> PlayStore_getVersion (\<lambda>u. ''2024-01-01T00:00:00.000Z'') PlayStore
          (\<lambda>n. Threw (ThrownValue ''null'')) (JString ''invalid-package'') =
          (Inl (PlayStoreError
                  ''Invalid package name format: invalid-package. Expected format: com.example.app''
                  (JString ''invalid-package'') None),
           \<lparr>calls = 0, waits = []\<rparr>))
   \<and> AppStore_getVersion AppStore (\<lambda>n. Rejected (ThrownValue ''null'')) JNull =
          (Inl (AppStoreError ''Bundle ID is required and must be a string'' (JString []) None),
           \<lparr>calls = 0, waits = []\<rparr>)
   \<and> PlayStore_getVersion (\<lambda>u. ''2024-01-01T00:00:00.000Z'') PlayStore
          (\<lambda>n. Threw (ThrownValue ''null'')) JNull =
          (Inl (PlayStoreError ''Package name is required and must be a string'' (JString []) None),
           \<lparr>calls = 0, waits = []\<rparr>)"
proof -
  let ?f = "\<lambda>u::updated. ''2024-01-01T00:00:00.000Z''"
  let ?bA = "\<lambda>n::nat. Rejected (ThrownValue ''null'')"
  let ?bP = "\<lambda>n::nat. Threw (ThrownValue ''null'')"
  have h1: "trim ''   '' = []"
    by (simp add: string_eval)
  have h2: "trim ''invalid-package'' \<noteq> [] \<and> \<not> spec_identifier ''invalid-package''"
    by (simp add: string_eval)
  note blank = getVersion_validation [where s = "''   ''" and app = AppStore and play = PlayStore
      and backendA = "?bA" and backendP = "?bP" and fmt = "?f" and i = JNull]
  note hyphen = getVersion_validation [where s = "''invalid-package''" and play = PlayStore
      and backendP = "?bP" and fmt = "?f" and i = JNull]
  from blank h1
  have c1: "AppStore_getVersion AppStore ?bA (JString ''   '') =
          (Inl (AppStoreError ''Bundle ID cannot be empty'' (JString ''   '') None),
           \<lparr>calls = 0, waits = []\<rparr>)"
    and c2: "PlayStore_getVersion ?f PlayStore ?bP (JString ''   '') =
          (Inl (PlayStoreError ''Package name cannot be empty'' (JString ''   '') None),
           \<lparr>calls = 0, waits = []\<rparr>)"
    by blast+
  from hyphen h2
  have c3: "PlayStore_getVersion ?f PlayStore ?bP (JString ''invalid-package'') =
          (Inl (PlayStoreError
                  (''Invalid package name format: '' @ ''invalid-package''
                     @ ''. Expected format: com.example.app'')
                  (JString ''invalid-package'') None),
           \<lparr>calls = 0, waits = []\<rparr>)"
    by blast
  from blank
  have c4: "AppStore_getVersion AppStore ?bA JNull =
          (Inl (AppStoreError ''Bundle ID is required and must be a string'' (JString []) None),
           \<lparr>calls = 0, waits = []\<rparr>)"
    and c5: "PlayStore_getVersion ?f PlayStore ?bP JNull =
          (Inl (PlayStoreError ''Package name is required and must be a string'' (JString []) None),
           \<lparr>calls = 0, waits = []\<rparr>)"
    by (simp_all add: or_empty_def)
  from h1 h2 c1 c2 c3 c4 c5 show ?thesis by simp
qed

text \<open>
  Claim C3 as stated fails for the App Store client: a token without a dot passes its
  validation and is looked up.
\<close>

theorem AppStore_getVersion_format_counterexample:
  "\<not> spec_identifier ''invalid''
   \<and> AppStore_getVersion AppStore (\<lambda>n. Resolved \<lparr>resultCount = 0, results = []\<rparr>) (JString ''invalid'') =
       (Inl (AppStoreError ''App not found: invalid'' (JString ''invalid'') (Some 404)),
        \<lparr>calls = 1, waits = []\<rparr>)"
  by (simp add: string_eval client_eval getVersion_eval)

section \<open>Runs of the retry loop\<close>

lemma show_int_0: "show_int 0 = ''0''"
  by (simp add: show_int_def show_nat.simps digit_char_def)

text \<open>Claim C10 at \<open>retryAttempts: 0\<close>.\<close>

theorem getVersion_zero_attempts_fallback_witness:
  "(Required_NodeMawConfig.retryEnabled
       (AppStoreClient.config (AppStoreClient_new (empty_AppStoreConfig\<lparr>NodeMawConfig.retryAttempts := Some 0\<rparr>)))
    \<and> Required_NodeMawConfig.retryAttempts
       (AppStoreClient.config (AppStoreClient_new (empty_AppStoreConfig\<lparr>NodeMawConfig.retryAttempts := Some 0\<rparr>))) \<le> 0
    \<and> trim ''com.example.app'' \<noteq> [])
   \<and> AppStore_getVersion (AppStoreClient_new (empty_AppStoreConfig\<lparr>NodeMawConfig.retryAttempts := Some 0\<rparr>))
        (\<lambda>n. Resolved \<lparr>resultCount = 0, results = []\<rparr>) (JString ''com.example.app'') =
      (Inl (NetworkError ''Failed to fetch App Store version after 0 attempts'' None),
       \<lparr>calls = 0, waits = []\<rparr>)
   \<and> (Required_NodeMawConfig.retryEnabled
       (PlayStoreClient.config (PlayStoreClient_new (empty_PlayStoreConfig\<lparr>NodeMawConfig.retryAttempts := Some 0\<rparr>)))
    \<and> Required_NodeMawConfig.retryAttempts
       (PlayStoreClient.config (PlayStoreClient_new (empty_PlayStoreConfig\<lparr>NodeMawConfig.retryAttempts := Some 0\<rparr>))) \<le> 0
    \<and> trim ''com.example.app'' \<noteq> [] \<and> package_name_test ''com.example.app'')
   \<and> PlayStore_getVersion (\<lambda>u. ''2024-01-01T00:00:00.000Z'') (PlayStoreClient_new (empty_PlayStoreConfig\<lparr>NodeMawConfig.retryAttempts := Some 0\<rparr>))
        (\<lambda>n. Returned None) (JString ''com.example.app'') =
      (Inl (NetworkError ''Failed to fetch Play Store version after 0 attempts'' None),
       \<lparr>calls = 0, waits = []\<rparr>)"
proof -
  let ?app = "AppStoreClient_new (empty_AppStoreConfig\<lparr>NodeMawConfig.retryAttempts := Some 0\<rparr>)"
  let ?play = "PlayStoreClient_new (empty_PlayStoreConfig\<lparr>NodeMawConfig.retryAttempts := Some 0\<rparr>)"
  have ra: "Required_NodeMawConfig.retryAttempts (AppStoreClient.config ?app) = 0"
    and ea: "Required_NodeMawConfig.retryEnabled (AppStoreClient.config ?app)"
    and rp: "Required_NodeMawConfig.retryAttempts (PlayStoreClient.config ?play) = 0"
    and ep: "Required_NodeMawConfig.retryEnabled (PlayStoreClient.config ?play)"
    by (simp_all add: client_eval)
  have s: "trim ''com.example.app'' \<noteq> []" and p: "package_name_test ''com.example.app''"
    by (simp_all add: string_eval)
  note inst = getVersion_zero_attempts_fallback [where app = "?app" and play = "?play"
      and s = "''com.example.app''" and fmt = "\<lambda>u. ''2024-01-01T00:00:00.000Z''"
      and backendA = "\<lambda>n. Resolved \<lparr>resultCount = 0, results = []\<rparr>"
      and backendP = "\<lambda>n. Returned None"]
  from inst ra ea s have a: "AppStore_getVersion ?app
        (\<lambda>n. Resolved \<lparr>resultCount = 0, results = []\<rparr>) (JString ''com.example.app'') =
      (Inl (NetworkError ''Failed to fetch App Store version after 0 attempts'' None),
       \<lparr>calls = 0, waits = []\<rparr>)"
    by (simp add: show_int_0)
  from inst rp ep s p have b: "PlayStore_getVersion (\<lambda>u. ''2024-01-01T00:00:00.000Z'') ?play
        (\<lambda>n. Returned None) (JString ''com.example.app'') =
      (Inl (NetworkError ''Failed to fetch Play Store version after 0 attempts'' None),
       \<lparr>calls = 0, waits = []\<rparr>)"
    by (simp add: show_int_0)
  from ra ea rp ep s p a b show ?thesis by simp
qed

text \<open>A run with two timeouts and then an answer.\<close>

lemma AppStore_getVersion_two_timeouts:
  "AppStore_getVersion AppStore
     (\<lambda>n. if n < 3 then Rejected (Thrown (AxiosError ''timeout of 10000ms exceeded'' None))
           else Resolved \<lparr>resultCount = 1,
                  results = [\<lparr>AppStoreApp.bundleId = ''com.example.app'', AppStoreApp.version = ''1.2.3'',
                              currentVersionReleaseDate = ''2024-01-01T00:00:00Z'',
                              AppStoreApp.releaseNotes = ''Fixes''\<rparr>]\<rparr>)
     (JString ''com.example.app'')
   = (Inr \<lparr>AppVersion.version = ''1.2.3'', releaseDate = ''2024-01-01T00:00:00Z'',
           AppVersion.releaseNotes = Some ''Fixes'', AppVersion.bundleId = Some ''com.example.app'',
           packageName = None\<rparr>,
      \<lparr>calls = 3, waits = [2000, 4000]\<rparr>)"
  by (simp add: string_eval client_eval getVersion_eval)


text \<open>The App Store client throws a 4xx store error at once, whatever the attempt.\<close>

lemma AppStore_attempts_client_error:
  assumes "int a < M"
    and "AppStore_try bid (backend (a + 1)) = Inl (Thrown (AppStoreError m k st))"
    and "client_error st"
  shows "AppStore_attempts backend bid M a tr =
           (Inl (AppStoreError m k st), tr\<lparr>calls := calls tr + 1\<rparr>)"
  using assms by (subst AppStore_attempts.simps) simp

text \<open>The Play Store client retries whatever an attempt before the last one caught.\<close>

lemma PlayStore_attempts_retries_any_error:
  assumes "int (a + 1) < M"
    and "PlayStore_try fmt p (backend (a + 1)) = Inl error"
  shows "PlayStore_attempts fmt backend p M a tr =
           PlayStore_attempts fmt backend p M (a + 1)
             (tr\<lparr>calls := calls tr + 1, waits := waits tr @ [2 ^ (a + 1) * 1000]\<rparr>)"
  using assms by (subst PlayStore_attempts.simps) simp

text \<open>
  Claim C2 at its failing input. The Play Store client, with the default three attempts,
  meets a not-found store error (status 404) on its first attempt: it waits two seconds
  and asks again, and returns the answer of the second attempt; when every attempt is
  not found it throws only after three requests and two waits. The App Store client at
  the same situation throws at once.
\<close>

theorem PlayStore_retries_not_found:
  "PlayStore_getVersion fmt PlayStore
     (\<lambda>n. if n = 1 then Returned None
           else Returned (Some \<lparr>PlayAppDetails.version = Some ''2.0.0'',
                                updated = UpdatedUndefined, recentChanges = None\<rparr>))
     (JString ''com.example.app'')
   = (Inr \<lparr>AppVersion.version = ''2.0.0'', releaseDate = fmt UpdatedUndefined,
           AppVersion.releaseNotes = None, AppVersion.bundleId = None,
           packageName = Some ''com.example.app''\<rparr>,
      \<lparr>calls = 2, waits = [2000]\<rparr>)
   \<and> PlayStore_getVersion fmt PlayStore (\<lambda>n. Returned None) (JString ''com.example.app'')
   = (Inl (PlayStoreError ''App not found: com.example.app'' (JString ''com.example.app'') (Some 404)),
      \<lparr>calls = 3, waits = [2000, 4000]\<rparr>)
   \<and> AppStore_getVersion AppStore (\<lambda>n. Resolved \<lparr>resultCount = 0, results = []\<rparr>)
       (JString ''com.example.app'')
   = (Inl (AppStoreError ''App not found: com.example.app'' (JString ''com.example.app'') (Some 404)),
      \<lparr>calls = 1, waits = []\<rparr>)"
proof (intro conjI)
  show "PlayStore_getVersion fmt PlayStore
     (\<lambda>n. if n = 1 then Returned None
           else Returned (Some \<lparr>PlayAppDetails.version = Some ''2.0.0'',
                                updated = UpdatedUndefined, recentChanges = None\<rparr>))
     (JString ''com.example.app'')
   = (Inr \<lparr>AppVersion.version = ''2.0.0'', releaseDate = fmt UpdatedUndefined,
           AppVersion.releaseNotes = None, AppVersion.bundleId = None,
           packageName = Some ''com.example.app''\<rparr>,
      \<lparr>calls = 2, waits = [2000]\<rparr>)"
    by (simp add: string_eval client_eval getVersion_eval)
  show "PlayStore_getVersion fmt PlayStore (\<lambda>n. Returned None) (JString ''com.example.app'')
   = (Inl (PlayStoreError ''App not found: com.example.app'' (JString ''com.example.app'') (Some 404)),
      \<lparr>calls = 3, waits = [2000, 4000]\<rparr>)"
    by (simp add: string_eval client_eval getVersion_eval)
  show "AppStore_getVersion AppStore (\<lambda>n. Resolved \<lparr>resultCount = 0, results = []\<rparr>)
       (JString ''com.example.app'')
   = (Inl (AppStoreError ''App not found: com.example.app'' (JString ''com.example.app'') (Some 404)),
      \<lparr>calls = 1, waits = []\<rparr>)"
    by (simp add: string_eval client_eval getVersion_eval)
qed

section \<open>The error thrown when the attempts are exhausted\<close>

lemma PlayStore_getVersion_last:
  assumes "trim s \<noteq> []" and "package_name_test s"
    and "0 < maxAttempts_of (PlayStoreClient.config play)"
    and "calls (snd (PlayStore_getVersion fmt play backend (JString s)))
           = nat (maxAttempts_of (PlayStoreClient.config play))"
    and "backend (nat (maxAttempts_of (PlayStoreClient.config play))) = Threw error"
  shows "fst (PlayStore_getVersion fmt play backend (JString s)) = Inl (PlayStore_catch s error)"
proof -
  let ?M = "maxAttempts_of (PlayStoreClient.config play)"
  have eq: "PlayStore_getVersion fmt play backend (JString s)
      = PlayStore_attempts fmt backend s ?M 0 no_trace"
    using assms(1,2) by (simp add: PlayStore_getVersion_def)
  have "PlayStore_try fmt s (backend (nat ?M)) = Inl error"
    using assms(5) by (simp add: PlayStore_try_def)
  with PlayStore_attempts_last [of 0 ?M fmt backend s no_trace error] assms(3,4)
  show ?thesis unfolding eq by simp
qed

lemma AppStore_getVersion_last:
  assumes "trim s \<noteq> []"
    and "0 < maxAttempts_of (AppStoreClient.config app)"
    and "calls (snd (AppStore_getVersion app backend (JString s)))
           = nat (maxAttempts_of (AppStoreClient.config app))"
    and "backend (nat (maxAttempts_of (AppStoreClient.config app))) = Rejected error"
  shows "\<exists>e. AppStore_catch s (maxAttempts_of (AppStoreClient.config app))
               (nat (maxAttempts_of (AppStoreClient.config app))) error = Some e
           \<and> fst (AppStore_getVersion app backend (JString s)) = Inl e"
proof -
  let ?M = "maxAttempts_of (AppStoreClient.config app)"
  have eq: "AppStore_getVersion app backend (JString s) = AppStore_attempts backend s ?M 0 no_trace"
    using assms(1) by (simp add: AppStore_getVersion_def)
  have "AppStore_try s (backend (nat ?M)) = Inl error"
    using assms(4) by (simp add: AppStore_try_def)
  with AppStore_attempts_last [of 0 ?M backend s no_trace error] assms(2,3)
  show ?thesis unfolding eq by simp
qed

lemma AppStore_catch_other:
  "\<not> is_AppStoreError e \<Longrightarrow> \<not> is_AxiosError e \<Longrightarrow> M \<le> int a \<Longrightarrow>
   AppStore_catch s M a (Thrown e) =
     Some (NetworkError (''Network error while fetching App Store version: '' @ message e) (Some e))"
  by (cases e) simp_all

text \<open>
  Claim C8, as amended. When \<open>getVersion\<close> has made all its attempts and the last one
  failed: the Play Store client throws a not-found store error (404) for an \<open>Error\<close>
  whose message contains "not found" or "404", else a \<open>NetworkError\<close> that wraps the
  error if the message contains "network" or "timeout", else a store error without
  status code and without the cause; for a thrown value that is not an \<open>Error\<close> it
  throws a \<open>NetworkError\<close> without cause. The App Store client throws a \<open>NetworkError\<close>
  that wraps the error for an \<open>Error\<close> that is neither its store error nor an
  \<open>AxiosError\<close>, and a \<open>NetworkError\<close> without cause for a thrown value that is not an
  \<open>Error\<close>.
\<close>

theorem getVersion_exhausted_classification:
  "(trim s \<noteq> [] \<and> package_name_test s \<and> 0 < maxAttempts_of (PlayStoreClient.config play)
      \<and> calls (snd (PlayStore_getVersion fmt play backendP (JString s)))
           = nat (maxAttempts_of (PlayStoreClient.config play))
      \<and> backendP (nat (maxAttempts_of (PlayStoreClient.config play))) = Threw (Thrown e) \<longrightarrow>
    fst (PlayStore_getVersion fmt play backendP (JString s)) =
      Inl (if includes_str (message e) ''not found'' \<or> includes_str (message e) ''404'' then
             PlayStoreError (''App not found: '' @ s) (JString s) (Some 404)
           else if includes_str (message e) ''network'' \<or> includes_str (message e) ''timeout'' then
             NetworkError (''Network error while fetching Play Store version: '' @ message e) (Some e)
           else PlayStoreError (''Failed to fetch Play Store version: '' @ message e) (JString s) None))
   \<and> (trim s \<noteq> [] \<and> package_name_test s \<and> 0 < maxAttempts_of (PlayStoreClient.config play)
      \<and> calls (snd (PlayStore_getVersion fmt play backendP (JString s)))
           = nat (maxAttempts_of (PlayStoreClient.config play))
      \<and> backendP (nat (maxAttempts_of (PlayStoreClient.config play))) = Threw (ThrownValue v) \<longrightarrow>
    fst (PlayStore_getVersion fmt play backendP (JString s)) =
      Inl (NetworkError (''Unknown error while fetching Play Store version: '' @ v) None))
   \<and> (trim s \<noteq> [] \<and> 0 < maxAttempts_of (AppStoreClient.config app)
      \<and> calls (snd (AppStore_getVersion app backendA (JString s)))
           = nat (maxAttempts_of (AppStoreClient.config app))
      \<and> backendA (nat (maxAttempts_of (AppStoreClient.config app))) = Rejected (Thrown e)
      \<and> \<not> is_AppStoreError e \<and> \<not> is_AxiosError e \<longrightarrow>
    fst (AppStore_getVersion app backendA (JString s)) =
      Inl (NetworkError (''Network error while fetching App Store version: '' @ message e) (Some e)))
   \<and> (trim s \<noteq> [] \<and> 0 < maxAttempts_of (AppStoreClient.config app)
      \<and> calls (snd (AppStore_getVersion app backendA (JString s)))
           = nat (maxAttempts_of (AppStoreClient.config app))
      \<and> backendA (nat (maxAttempts_of (AppStoreClient.config app))) = Rejected (ThrownValue v) \<longrightarrow>
    fst (AppStore_getVersion app backendA (JString s)) =
      Inl (NetworkError ''Network error while fetching App Store version: Unknown error'' None))"
proof (intro conjI impI)
  assume "trim s \<noteq> [] \<and> package_name_test s \<and> 0 < maxAttempts_of (PlayStoreClient.config play)
      \<and> calls (snd (PlayStore_getVersion fmt play backendP (JString s)))
           = nat (maxAttempts_of (PlayStoreClient.config play))
      \<and> backendP (nat (maxAttempts_of (PlayStoreClient.config play))) = Threw (Thrown e)"
  then have "fst (PlayStore_getVersion fmt play backendP (JString s))
      = Inl (PlayStore_catch s (Thrown e))"
    using PlayStore_getVersion_last by blast
  then show "fst (PlayStore_getVersion fmt play backendP (JString s)) =
      Inl (if includes_str (message e) ''not found'' \<or> includes_str (message e) ''404'' then
             PlayStoreError (''App not found: '' @ s) (JString s) (Some 404)
           else if includes_str (message e) ''network'' \<or> includes_str (message e) ''timeout'' then
             NetworkError (''Network error while fetching Play Store version: '' @ message e) (Some e)
           else PlayStoreError (''Failed to fetch Play Store version: '' @ message e) (JString s) None)"
    by simp
next
  assume "trim s \<noteq> [] \<and> package_name_test s \<and> 0 < maxAttempts_of (PlayStoreClient.config play)
      \<and> calls (snd (PlayStore_getVersion fmt play backendP (JString s)))
           = nat (maxAttempts_of (PlayStoreClient.config play))
      \<and> backendP (nat (maxAttempts_of (PlayStoreClient.config play))) = Threw (ThrownValue v)"
  then have "fst (PlayStore_getVersion fmt play backendP (JString s))
      = Inl (PlayStore_catch s (ThrownValue v))"
    using PlayStore_getVersion_last by blast
  then show "fst (PlayStore_getVersion fmt play backendP (JString s)) =
      Inl (NetworkError (''Unknown error while fetching Play Store version: '' @ v) None)"
    by simp
next
  assume h: "trim s \<noteq> [] \<and> 0 < maxAttempts_of (AppStoreClient.config app)
      \<and> calls (snd (AppStore_getVersion app backendA (JString s)))
           = nat (maxAttempts_of (AppStoreClient.config app))
      \<and> backendA (nat (maxAttempts_of (AppStoreClient.config app))) = Rejected (Thrown e)
      \<and> \<not> is_AppStoreError e \<and> \<not> is_AxiosError e"
  then obtain x where "AppStore_catch s (maxAttempts_of (AppStoreClient.config app))
               (nat (maxAttempts_of (AppStoreClient.config app))) (Thrown e) = Some x"
    and "fst (AppStore_getVersion app backendA (JString s)) = Inl x"
    using AppStore_getVersion_last [of s app backendA "Thrown e"] by blast
  moreover have "maxAttempts_of (AppStoreClient.config app)
      \<le> int (nat (maxAttempts_of (AppStoreClient.config app)))"
    by simp
  ultimately show "fst (AppStore_getVersion app backendA (JString s)) =
      Inl (NetworkError (''Network error while fetching App Store version: '' @ message e) (Some e))"
    using h AppStore_catch_other [of e "maxAttempts_of (AppStoreClient.config app)"
        "nat (maxAttempts_of (AppStoreClient.config app))" s]
    by simp
next
  assume h: "trim s \<noteq> [] \<and> 0 < maxAttempts_of (AppStoreClient.config app)
      \<and> calls (snd (AppStore_getVersion app backendA (JString s)))
           = nat (maxAttempts_of (AppStoreClient.config app))
      \<and> backendA (nat (maxAttempts_of (AppStoreClient.config app))) = Rejected (ThrownValue v)"
  then obtain x where "AppStore_catch s (maxAttempts_of (AppStoreClient.config app))
               (nat (maxAttempts_of (AppStoreClient.config app))) (ThrownValue v) = Some x"
    and "fst (AppStore_getVersion app backendA (JString s)) = Inl x"
    using AppStore_getVersion_last [of s app backendA "ThrownValue v"] by blast
  then show "fst (AppStore_getVersion app backendA (JString s)) =
      Inl (NetworkError ''Network error while fetching App Store version: Unknown error'' None)"
    by (simp split: if_splits)
qed

lemma PlayStore_connection_refused:
  "PlayStore_getVersion fmt PlayStore
      (\<lambda>n. Threw (Thrown (OtherError ''connect ECONNREFUSED'')))
      (JString ''com.example.app'')
   = (Inl (PlayStoreError ''Failed to fetch Play Store version: connect ECONNREFUSED''
             (JString ''com.example.app'') None),
      \<lparr>calls = 3, waits = [2000, 4000]\<rparr>)"
  by (simp add: string_eval client_eval getVersion_eval)

text \<open>
  Claim C8 as stated fails: a refused connection, with no response, on all three attempts
  of the Play Store client ends in a store error that carries no cause.
\<close>

theorem getVersion_exhausted_counterexample:
  "calls (snd (PlayStore_getVersion (\<lambda>u. ''2024-01-01T00:00:00.000Z'') PlayStore
      (\<lambda>n. Threw (Thrown (OtherError ''connect ECONNREFUSED'')))
      (JString ''com.example.app''))) = 3
   \<and> fst (PlayStore_getVersion (\<lambda>u. ''2024-01-01T00:00:00.000Z'') PlayStore
      (\<lambda>n. Threw (Thrown (OtherError ''connect ECONNREFUSED'')))
      (JString ''com.example.app''))
     = Inl (PlayStoreError ''Failed to fetch Play Store version: connect ECONNREFUSED''
             (JString ''com.example.app'') None)
   \<and> \<not> is_NetworkError (PlayStoreError ''Failed to fetch Play Store version: connect ECONNREFUSED''
             (JString ''com.example.app'') None)
   \<and> originalError (PlayStoreError ''Failed to fetch Play Store version: connect ECONNREFUSED''
             (JString ''com.example.app'') None) = None"
  by (simp add: PlayStore_connection_refused)

text \<open>
  The amended claim C8 at a timeout (Play Store), a dropped socket (App Store) and a
  thrown object that is not an \<open>Error\<close>.
\<close>

theorem getVersion_exhausted_classification_witness:
  "(trim ''com.example.app'' \<noteq> [] \<and> package_name_test ''com.example.app''
      \<and> 0 < maxAttempts_of (PlayStoreClient.config PlayStore)
      \<and> calls (snd (PlayStore_getVersion (\<lambda>u. ''2024-01-01T00:00:00.000Z'') PlayStore
            (\<lambda>n. Threw (Thrown (OtherError ''request timeout''))) (JString ''com.example.app'')))
           = nat (maxAttempts_of (PlayStoreClient.config PlayStore)))
   \<and> fst (PlayStore_getVersion (\<lambda>u. ''2024-01-01T00:00:00.000Z'') PlayStore
            (\<lambda>n. Threw (Thrown (OtherError ''request timeout''))) (JString ''com.example.app''))
       = Inl (NetworkError ''Network error while fetching Play Store version: request timeout''
                (Some (OtherError ''request timeout'')))
   \<and> calls (snd (PlayStore_getVersion (\<lambda>u. ''2024-01-01T00:00:00.000Z'') PlayStore
            (\<lambda>n. Threw (ThrownValue ''{}'')) (JString ''com.example.app'')))
           = nat (maxAttempts_of (PlayStoreClient.config PlayStore))
   \<and> fst (PlayStore_getVersion (\<lambda>u. ''2024-01-01T00:00:00.000Z'') PlayStore
            (\<lambda>n. Threw (ThrownValue ''{}'')) (JString ''com.example.app''))
       = Inl (NetworkError ''Unknown error while fetching Play Store version: {}'' None)
   \<and> (0 < maxAttempts_of (AppStoreClient.config AppStore)
      \<and> calls (snd (AppStore_getVersion AppStore
            (\<lambda>n. Rejected (Thrown (OtherError ''socket hang up''))) (JString ''com.example.app'')))
           = nat (maxAttempts_of (AppStoreClient.config AppStore)))
   \<and> fst (AppStore_getVersion AppStore
            (\<lambda>n. Rejected (Thrown (OtherError ''socket hang up''))) (JString ''com.example.app''))
       = Inl (NetworkError ''Network error while fetching App Store version: socket hang up''
                (Some (OtherError ''socket hang up'')))
   \<and> calls (snd (AppStore_getVersion AppStore
            (\<lambda>n. Rejected (ThrownValue ''{}'')) (JString ''com.example.app'')))
           = nat (maxAttempts_of (AppStoreClient.config AppStore))
   \<and> fst (AppStore_getVersion AppStore
            (\<lambda>n. Rejected (ThrownValue ''{}'')) (JString ''com.example.app''))
       = Inl (NetworkError ''Network error while fetching App Store version: Unknown error'' None)"
proof -
  let ?f = "\<lambda>u::updated. ''2024-01-01T00:00:00.000Z''"
  let ?bP = "\<lambda>n::nat. Threw (Thrown (OtherError ''request timeout''))"
  let ?bA = "\<lambda>n::nat. Rejected (Thrown (OtherError ''socket hang up''))"
  let ?vP = "\<lambda>n::nat. Threw (ThrownValue ''{}'')"
  let ?vA = "\<lambda>n::nat. Rejected (ThrownValue ''{}'')"
  have s: "trim ''com.example.app'' \<noteq> []" and p: "package_name_test ''com.example.app''"
    by (simp_all add: string_eval)
  have mp: "maxAttempts_of (PlayStoreClient.config PlayStore) = 3"
    and ma: "maxAttempts_of (AppStoreClient.config AppStore) = 3"
    by (simp_all add: client_eval)
  have cp: "calls (snd (PlayStore_getVersion ?f PlayStore ?bP (JString ''com.example.app''))) = 3"
    and cvp: "calls (snd (PlayStore_getVersion ?f PlayStore ?vP (JString ''com.example.app''))) = 3"
    by (simp_all add: string_eval client_eval getVersion_eval)
  have ca: "calls (snd (AppStore_getVersion AppStore ?bA (JString ''com.example.app''))) = 3"
    and cva: "calls (snd (AppStore_getVersion AppStore ?vA (JString ''com.example.app''))) = 3"
    by (simp_all add: string_eval client_eval getVersion_eval)
  note inst1 = getVersion_exhausted_classification [where s = "''com.example.app''"
      and play = PlayStore and app = AppStore and fmt = "?f" and backendP = "?bP" and backendA = "?bA"
      and e = "OtherError ''request timeout''" and v = "''{}''"]
  note inst2 = getVersion_exhausted_classification [where s = "''com.example.app''"
      and play = PlayStore and app = AppStore and fmt = "?f" and backendP = "?vP" and backendA = "?bA"
      and e = "OtherError ''socket hang up''" and v = "''{}''"]
  note inst3 = getVersion_exhausted_classification [where s = "''com.example.app''"
      and play = PlayStore and app = AppStore and fmt = "?f" and backendP = "?vP" and backendA = "?vA"
      and e = "OtherError ''socket hang up''" and v = "''{}''"]
  from inst1 s p mp cp
  have a: "fst (PlayStore_getVersion ?f PlayStore ?bP (JString ''com.example.app''))
       = Inl (NetworkError ''Network error while fetching Play Store version: request timeout''
                (Some (OtherError ''request timeout'')))"
    by simp
  from inst2 s p mp cvp
  have b: "fst (PlayStore_getVersion ?f PlayStore ?vP (JString ''com.example.app''))
       = Inl (NetworkError ''Unknown error while fetching Play Store version: {}'' None)"
    by simp
  from inst2 s ma ca
  have c: "fst (AppStore_getVersion AppStore ?bA (JString ''com.example.app''))
       = Inl (NetworkError ''Network error while fetching App Store version: socket hang up''
                (Some (OtherError ''socket hang up'')))"
    by simp
  from inst3 s ma cva
  have d: "fst (AppStore_getVersion AppStore ?vA (JString ''com.example.app''))
       = Inl (NetworkError ''Network error while fetching App Store version: Unknown error'' None)"
    by simp
  from s p mp ma cp cvp ca cva a b c d show ?thesis by simp
qed

section \<open>The operations built on \<open>getVersion\<close>\<close>

lemma is_AppStoreError_404:
  "(is_AppStoreError e \<and> statusCode e = Some 404) = (\<exists>m k. e = AppStoreError m k (Some 404))"
  by (cases e) auto

lemma is_PlayStoreError_404:
  "(is_PlayStoreError e \<and> statusCode e = Some 404) = (\<exists>m k. e = PlayStoreError m k (Some 404))"
  by (cases e) auto

text \<open>
  Claim C7. For both clients and every identifier, \<open>exists\<close> returns false exactly when
  \<open>getVersion\<close> throws that store's error with status code 404, returns true exactly when
  \<open>getVersion\<close> returns, and throws any other error of \<open>getVersion\<close> unchanged; it makes
  the requests and waits of that \<open>getVersion\<close> call and no other.
\<close>

theorem exists_false_only_not_found:
  "(fst (AppStore_exists app backendA i) = Inr False
      \<longleftrightarrow> (\<exists>m k. fst (AppStore_getVersion app backendA i) = Inl (AppStoreError m k (Some 404))))
   \<and> (fst (AppStore_exists app backendA i) = Inr True
      \<longleftrightarrow> (\<exists>v. fst (AppStore_getVersion app backendA i) = Inr v))
   \<and> (fst (AppStore_getVersion app backendA i) = Inl e
        \<and> \<not> (is_AppStoreError e \<and> statusCode e = Some 404)
      \<longrightarrow> fst (AppStore_exists app backendA i) = Inl e)
   \<and> snd (AppStore_exists app backendA i) = snd (AppStore_getVersion app backendA i)
   \<and> (fst (PlayStore_exists fmt play backendP i) = Inr False
      \<longleftrightarrow> (\<exists>m k. fst (PlayStore_getVersion fmt play backendP i) = Inl (PlayStoreError m k (Some 404))))
   \<and> (fst (PlayStore_exists fmt play backendP i) = Inr True
      \<longleftrightarrow> (\<exists>v. fst (PlayStore_getVersion fmt play backendP i) = Inr v))
   \<and> (fst (PlayStore_getVersion fmt play backendP i) = Inl e
        \<and> \<not> (is_PlayStoreError e \<and> statusCode e = Some 404)
      \<longrightarrow> fst (PlayStore_exists fmt play backendP i) = Inl e)
   \<and> snd (PlayStore_exists fmt play backendP i) = snd (PlayStore_getVersion fmt play backendP i)"
proof -
  obtain ra ta where a: "AppStore_getVersion app backendA i = (ra, ta)"
    by (cases "AppStore_getVersion app backendA i")
  obtain rp tp where p: "PlayStore_getVersion fmt play backendP i = (rp, tp)"
    by (cases "PlayStore_getVersion fmt play backendP i")
  have A: "(fst (AppStore_exists app backendA i) = Inr False
      \<longleftrightarrow> (\<exists>m k. ra = Inl (AppStoreError m k (Some 404))))
   \<and> (fst (AppStore_exists app backendA i) = Inr True \<longleftrightarrow> (\<exists>v. ra = Inr v))
   \<and> (ra = Inl e \<and> \<not> (is_AppStoreError e \<and> statusCode e = Some 404)
      \<longrightarrow> fst (AppStore_exists app backendA i) = Inl e)
   \<and> snd (AppStore_exists app backendA i) = ta"
    by (cases ra) (auto simp: AppStore_exists_def a is_AppStoreError_404)
  have P: "(fst (PlayStore_exists fmt play backendP i) = Inr False
      \<longleftrightarrow> (\<exists>m k. rp = Inl (PlayStoreError m k (Some 404))))
   \<and> (fst (PlayStore_exists fmt play backendP i) = Inr True \<longleftrightarrow> (\<exists>v. rp = Inr v))
   \<and> (rp = Inl e \<and> \<not> (is_PlayStoreError e \<and> statusCode e = Some 404)
      \<longrightarrow> fst (PlayStore_exists fmt play backendP i) = Inl e)
   \<and> snd (PlayStore_exists fmt play backendP i) = tp"
    by (cases rp) (auto simp: PlayStore_exists_def p is_PlayStoreError_404)
  from A P show ?thesis
    unfolding a p fst_conv snd_conv by blast
qed

text \<open>Claim C7 at a network failure, which \<open>exists\<close> throws again, and at a not-found.\<close>

theorem exists_false_only_not_found_witness:
  "(fst (AppStore_getVersion AppStore (\<lambda>n. Rejected (Thrown (OtherError ''socket hang up'')))
          (JString ''com.example.app''))
      = Inl (NetworkError ''Network error while fetching App Store version: socket hang up''
               (Some (OtherError ''socket hang up'')))
    \<and> \<not> (is_AppStoreError (NetworkError ''Network error while fetching App Store version: socket hang up''
               (Some (OtherError ''socket hang up'')))
         \<and> statusCode (NetworkError ''Network error while fetching App Store version: socket hang up''
               (Some (OtherError ''socket hang up''))) = Some 404))
   \<and> fst (AppStore_exists AppStore (\<lambda>n. Rejected (Thrown (OtherError ''socket hang up'')))
          (JString ''com.example.app''))
      = Inl (NetworkError ''Network error while fetching App Store version: socket hang up''
               (Some (OtherError ''socket hang up'')))
   \<and> (fst (PlayStore_getVersion (\<lambda>u. ''2024-01-01T00:00:00.000Z'') PlayStore (\<lambda>n. Threw (Thrown (OtherError ''request timeout'')))
          (JString ''com.example.app''))
      = Inl (NetworkError ''Network error while fetching Play Store version: request timeout''
               (Some (OtherError ''request timeout'')))
    \<and> \<not> (is_PlayStoreError (NetworkError ''Network error while fetching Play Store version: request timeout''
               (Some (OtherError ''request timeout'')))
         \<and> statusCode (NetworkError ''Network error while fetching Play Store version: request timeout''
               (Some (OtherError ''request timeout''))) = Some 404))
   \<and> fst (PlayStore_exists (\<lambda>u. ''2024-01-01T00:00:00.000Z'') PlayStore (\<lambda>n. Threw (Thrown (OtherError ''request timeout'')))
          (JString ''com.example.app''))
      = Inl (NetworkError ''Network error while fetching Play Store version: request timeout''
               (Some (OtherError ''request timeout'')))
   \<and> fst (AppStore_exists AppStore (\<lambda>n. Resolved \<lparr>resultCount = 0, results = []\<rparr>)
          (JString ''com.example.app'')) = Inr False"
proof -
  let ?bA = "\<lambda>n::nat. Rejected (Thrown (OtherError ''socket hang up''))"
  let ?bP = "\<lambda>n::nat. Threw (Thrown (OtherError ''request timeout''))"
  let ?eA = "NetworkError ''Network error while fetching App Store version: socket hang up''
               (Some (OtherError ''socket hang up''))"
  let ?eP = "NetworkError ''Network error while fetching Play Store version: request timeout''
               (Some (OtherError ''request timeout''))"
  have ga: "fst (AppStore_getVersion AppStore ?bA (JString ''com.example.app'')) = Inl ?eA"
    by (simp add: string_eval client_eval getVersion_eval)
  have gp: "fst (PlayStore_getVersion (\<lambda>u. ''2024-01-01T00:00:00.000Z'') PlayStore ?bP (JString ''com.example.app'')) = Inl ?eP"
    by (simp add: string_eval client_eval getVersion_eval)
  have g0: "fst (AppStore_getVersion AppStore (\<lambda>n. Resolved \<lparr>resultCount = 0, results = []\<rparr>)
          (JString ''com.example.app''))
       = Inl (AppStoreError ''App not found: com.example.app'' (JString ''com.example.app'') (Some 404))"
    by (simp add: string_eval client_eval getVersion_eval)
  note inst1 = exists_false_only_not_found [where app = AppStore and backendA = "?bA"
      and i = "JString ''com.example.app''" and e = "?eA"]
  note inst2 = exists_false_only_not_found [where play = PlayStore and backendP = "?bP"
      and fmt = "\<lambda>u. ''2024-01-01T00:00:00.000Z''" and i = "JString ''com.example.app''" and e = "?eP"]
  note inst3 = exists_false_only_not_found [where app = AppStore
      and backendA = "\<lambda>n. Resolved \<lparr>resultCount = 0, results = []\<rparr>"
      and i = "JString ''com.example.app''"]
  have na: "\<not> (is_AppStoreError ?eA \<and> statusCode ?eA = Some 404)"
    and np: "\<not> (is_PlayStoreError ?eP \<and> statusCode ?eP = Some 404)"
    by simp_all
  from inst1 ga na have a: "fst (AppStore_exists AppStore ?bA (JString ''com.example.app'')) = Inl ?eA"
    by blast
  from inst2 gp np have b: "fst (PlayStore_exists (\<lambda>u. ''2024-01-01T00:00:00.000Z'') PlayStore ?bP (JString ''com.example.app'')) = Inl ?eP"
    by blast
  from inst3 g0 have c: "fst (AppStore_exists AppStore (\<lambda>n. Resolved \<lparr>resultCount = 0, results = []\<rparr>)
          (JString ''com.example.app'')) = Inr False"
    by blast
  from ga gp na np a b c show ?thesis by blast
qed

text \<open>
  Claim C4. When \<open>checkForUpdates\<close> of either client, called with a string as the current
  version, returns a result, \<open>getVersion\<close> returned for that identifier, and the result
  has \<open>versionComparison = compareVersions(currentVersion, latestVersion)\<close> with
  \<open>latestVersion\<close> the version of the \<open>getVersion\<close> result,
  \<open>updateAvailable = (versionComparison < 0)\<close>, both versions echoed, and
  \<open>updateDetails\<close> the \<open>getVersion\<close> result exactly when \<open>updateAvailable\<close>, absent
  otherwise.
\<close>

theorem checkForUpdates_result:
  "(fst (AppStore_checkForUpdates app backendA i (JString cv)) = Inr r \<longrightarrow>
      (\<exists>info. fst (AppStore_getVersion app backendA i) = Inr info
         \<and> versionComparison r = compareVersions cv (AppVersion.version info)
         \<and> updateAvailable r = (versionComparison r < 0)
         \<and> currentVersion r = cv
         \<and> latestVersion r = AppVersion.version info
         \<and> updateDetails r = (if updateAvailable r then Some info else None)))
   \<and> (fst (PlayStore_checkForUpdates fmt play backendP i (JString cv)) = Inr r \<longrightarrow>
      (\<exists>info. fst (PlayStore_getVersion fmt play backendP i) = Inr info
         \<and> versionComparison r = compareVersions cv (AppVersion.version info)
         \<and> updateAvailable r = (versionComparison r < 0)
         \<and> currentVersion r = cv
         \<and> latestVersion r = AppVersion.version info
         \<and> updateDetails r = (if updateAvailable r then Some info else None)))"
proof -
  obtain ra ta where a: "AppStore_getVersion app backendA i = (ra, ta)"
    by (cases "AppStore_getVersion app backendA i")
  obtain rp tp where p: "PlayStore_getVersion fmt play backendP i = (rp, tp)"
    by (cases "PlayStore_getVersion fmt play backendP i")
  show ?thesis
    by (cases ra; cases rp)
      (auto simp: AppStore_checkForUpdates_def PlayStore_checkForUpdates_def a p Let_def
        split: if_splits)
qed

section \<open>Update checks and the configuration of the facade\<close>

text \<open>
  Claim C4 at current version 0.0.1 against a latest version 2.0.0 (Play Store) and at
  99.99.99 against 1.2.3 (App Store).
\<close>

theorem checkForUpdates_result_witness:
  "fst (PlayStore_checkForUpdates (\<lambda>u. ''2024-01-01T00:00:00.000Z'') PlayStore
          (\<lambda>n. Returned (Some \<lparr>PlayAppDetails.version = Some ''2.0.0'',
                                 updated = UpdatedUndefined, recentChanges = None\<rparr>))
          (JString ''com.example.app'') (JString ''0.0.1''))
     = Inr \<lparr>updateAvailable = True, currentVersion = ''0.0.1'', latestVersion = ''2.0.0'',
            updateDetails = Some \<lparr>AppVersion.version = ''2.0.0'',
              releaseDate = ''2024-01-01T00:00:00.000Z'',
              AppVersion.releaseNotes = None, AppVersion.bundleId = None,
              packageName = Some ''com.example.app''\<rparr>,
            versionComparison = - 1\<rparr>
   \<and> (\<exists>info. fst (PlayStore_getVersion (\<lambda>u. ''2024-01-01T00:00:00.000Z'') PlayStore
          (\<lambda>n. Returned (Some \<lparr>PlayAppDetails.version = Some ''2.0.0'',
                                 updated = UpdatedUndefined, recentChanges = None\<rparr>))
          (JString ''com.example.app'')) = Inr info
        \<and> compareVersions ''0.0.1'' (AppVersion.version info) = - 1
        \<and> AppVersion.version info = ''2.0.0'')
   \<and> fst (AppStore_checkForUpdates AppStore
          (\<lambda>n. Resolved \<lparr>resultCount = 1,
                  results = [\<lparr>AppStoreApp.bundleId = ''com.example.app'',
                              AppStoreApp.version = ''1.2.3'',
                              currentVersionReleaseDate = ''2024-01-01T00:00:00Z'',
                              AppStoreApp.releaseNotes = ''Fixes''\<rparr>]\<rparr>)
          (JString ''com.example.app'') (JString ''99.99.99''))
     = Inr \<lparr>updateAvailable = False, currentVersion = ''99.99.99'', latestVersion = ''1.2.3'',
            updateDetails = None, versionComparison = 1\<rparr>
   \<and> (\<exists>info. fst (AppStore_getVersion AppStore
          (\<lambda>n. Resolved \<lparr>resultCount = 1,
                  results = [\<lparr>AppStoreApp.bundleId = ''com.example.app'',
                              AppStoreApp.version = ''1.2.3'',
                              currentVersionReleaseDate = ''2024-01-01T00:00:00Z'',
                              AppStoreApp.releaseNotes = ''Fixes''\<rparr>]\<rparr>)
          (JString ''com.example.app'')) = Inr info
        \<and> compareVersions ''99.99.99'' (AppVersion.version info) = 1
        \<and> AppVersion.version info = ''1.2.3'')"
proof -
  let ?f = "\<lambda>u::updated. ''2024-01-01T00:00:00.000Z''"
  let ?bP = "\<lambda>n::nat. Returned (Some \<lparr>PlayAppDetails.version = Some ''2.0.0'',
                                 updated = UpdatedUndefined, recentChanges = None\<rparr>)"
  let ?bA = "\<lambda>n::nat. Resolved \<lparr>resultCount = 1,
                  results = [\<lparr>AppStoreApp.bundleId = ''com.example.app'',
                              AppStoreApp.version = ''1.2.3'',
                              currentVersionReleaseDate = ''2024-01-01T00:00:00Z'',
                              AppStoreApp.releaseNotes = ''Fixes''\<rparr>]\<rparr>"
  let ?infoP = "\<lparr>AppVersion.version = ''2.0.0'', releaseDate = ''2024-01-01T00:00:00.000Z'',
              AppVersion.releaseNotes = None, AppVersion.bundleId = None,
              packageName = Some ''com.example.app''\<rparr>"
  let ?infoA = "\<lparr>AppVersion.version = ''1.2.3'', releaseDate = ''2024-01-01T00:00:00Z'',
              AppVersion.releaseNotes = Some ''Fixes'', AppVersion.bundleId = Some ''com.example.app'',
              packageName = None\<rparr>"
  let ?rP = "\<lparr>updateAvailable = True, currentVersion = ''0.0.1'', latestVersion = ''2.0.0'',
            updateDetails = Some ?infoP, versionComparison = - 1\<rparr>"
  let ?rA = "\<lparr>updateAvailable = False, currentVersion = ''99.99.99'', latestVersion = ''1.2.3'',
            updateDetails = None, versionComparison = 1\<rparr>"
  have gP: "PlayStore_getVersion ?f PlayStore ?bP (JString ''com.example.app'')
      = (Inr ?infoP, \<lparr>calls = 1, waits = []\<rparr>)"
    by (simp add: string_eval client_eval getVersion_eval)
  have gA: "AppStore_getVersion AppStore ?bA (JString ''com.example.app'')
      = (Inr ?infoA, \<lparr>calls = 1, waits = []\<rparr>)"
    by (simp add: string_eval client_eval getVersion_eval)
  have cP: "compareVersions ''0.0.1'' ''2.0.0'' = - 1"
    by (simp add: compareVersions_eval)
  have cA: "compareVersions ''99.99.99'' ''1.2.3'' = 1"
    by (simp add: compareVersions_eval)
  have hP: "fst (PlayStore_checkForUpdates ?f PlayStore ?bP (JString ''com.example.app'')
             (JString ''0.0.1'')) = Inr ?rP"
    by (simp add: PlayStore_checkForUpdates_def gP cP string_eval Let_def)
  have hA: "fst (AppStore_checkForUpdates AppStore ?bA (JString ''com.example.app'')
             (JString ''99.99.99'')) = Inr ?rA"
    by (simp add: AppStore_checkForUpdates_def gA cA string_eval Let_def)
  note instP = checkForUpdates_result [where play = PlayStore and fmt = "?f" and backendP = "?bP"
      and app = AppStore and backendA = "?bA"
      and i = "JString ''com.example.app''" and cv = "''0.0.1''" and r = "?rP"]
  note instA = checkForUpdates_result [where play = PlayStore and fmt = "?f" and backendP = "?bP"
      and app = AppStore and backendA = "?bA"
      and i = "JString ''com.example.app''" and cv = "''99.99.99''" and r = "?rA"]
  from instP hP obtain infoP
    where "fst (PlayStore_getVersion ?f PlayStore ?bP (JString ''com.example.app'')) = Inr infoP"
      and "versionComparison ?rP = compareVersions ''0.0.1'' (AppVersion.version infoP)"
      and "latestVersion ?rP = AppVersion.version infoP"
    by blast
  then have eP: "\<exists>info. fst (PlayStore_getVersion ?f PlayStore ?bP (JString ''com.example.app'')) = Inr info
        \<and> compareVersions ''0.0.1'' (AppVersion.version info) = - 1
        \<and> AppVersion.version info = ''2.0.0''"
    by simp
  from instA hA obtain infoA
    where "fst (AppStore_getVersion AppStore ?bA (JString ''com.example.app'')) = Inr infoA"
      and "versionComparison ?rA = compareVersions ''99.99.99'' (AppVersion.version infoA)"
      and "latestVersion ?rA = AppVersion.version infoA"
    by blast
  then have eA: "\<exists>info. fst (AppStore_getVersion AppStore ?bA (JString ''com.example.app'')) = Inr info
        \<and> compareVersions ''99.99.99'' (AppVersion.version info) = 1
        \<and> AppVersion.version info = ''1.2.3''"
    by simp
  from hP eP hA eA show ?thesis by blast
qed

lemma present_simps [simp]: "present None = False" "present (Some x) = True"
  by (simp_all add: present_def)

lemma spread_simps [simp]: "spread old None = old" "spread old (Some v) = v"
  by (simp_all add: spread_def)

lemma spread_opt_simps [simp]: "spread_opt old None = old" "spread_opt old (Some v) = Some v"
  by (simp_all add: spread_opt_def)

lemma nullish_simps [simp]: "nullish None d = d" "nullish (Some v) d = v"
  by (simp_all add: nullish_def)

lemma spread_spread_opt: "spread x (spread_opt (Some y) z) = spread y z"
  by (cases z) simp_all

lemma spread_opt_None_left: "spread_opt None z = z"
  by (cases z) simp_all

lemma spread_opt_Some_left: "spread_opt (Some y) z = Some (spread y z)"
  by (cases z) simp_all

lemma updateConfig_merged:
  "NodeMaw.config (fst (NodeMaw_updateConfig newConfig this)) =
       \<lparr>Required_NodeMawConfig.timeout =
           spread (Required_NodeMawConfig.timeout (NodeMaw.config this)) (NodeMawConfig.timeout newConfig),
         Required_NodeMawConfig.userAgent =
           spread (Required_NodeMawConfig.userAgent (NodeMaw.config this)) (NodeMawConfig.userAgent newConfig),
         Required_NodeMawConfig.headers =
           spread (Required_NodeMawConfig.headers (NodeMaw.config this)) (NodeMawConfig.headers newConfig),
         Required_NodeMawConfig.retryEnabled =
           spread (Required_NodeMawConfig.retryEnabled (NodeMaw.config this)) (NodeMawConfig.retryEnabled newConfig),
         Required_NodeMawConfig.retryAttempts =
           spread (Required_NodeMawConfig.retryAttempts (NodeMaw.config this)) (NodeMawConfig.retryAttempts newConfig)\<rparr>"
  by (simp add: NodeMaw_updateConfig_def Let_def)

lemma updateConfig_log:
  "snd (NodeMaw_updateConfig newConfig this) =
       (if present (appStore newConfig) \<or> some_shared_key newConfig then
          [PushAppStore
             \<lparr>NodeMawConfig.timeout =
              Some (spread (Required_NodeMawConfig.timeout (NodeMaw.config (fst (NodeMaw_updateConfig newConfig this))))
              (Option.bind (appStore newConfig) NodeMawConfig.timeout)),
            NodeMawConfig.userAgent =
              Some (spread (Required_NodeMawConfig.userAgent (NodeMaw.config (fst (NodeMaw_updateConfig newConfig this))))
              (Option.bind (appStore newConfig) NodeMawConfig.userAgent)),
            NodeMawConfig.headers =
              Some (spread (Required_NodeMawConfig.headers (NodeMaw.config (fst (NodeMaw_updateConfig newConfig this))))
              (Option.bind (appStore newConfig) NodeMawConfig.headers)),
            NodeMawConfig.retryEnabled =
              Some (spread (Required_NodeMawConfig.retryEnabled (NodeMaw.config (fst (NodeMaw_updateConfig newConfig this))))
              (Option.bind (appStore newConfig) NodeMawConfig.retryEnabled)),
            NodeMawConfig.retryAttempts =
              Some (spread (Required_NodeMawConfig.retryAttempts (NodeMaw.config (fst (NodeMaw_updateConfig newConfig this))))
              (Option.bind (appStore newConfig) NodeMawConfig.retryAttempts)),
            AppStoreConfig.country = Option.bind (appStore newConfig) AppStoreConfig.country,
            AppStoreConfig.includeMetadata = Option.bind (appStore newConfig) AppStoreConfig.includeMetadata\<rparr>]
        else [])
       @ (if present (playStore newConfig) \<or> some_shared_key newConfig then
          [PushPlayStore
             \<lparr>NodeMawConfig.timeout =
              Some (spread (Required_NodeMawConfig.timeout (NodeMaw.config (fst (NodeMaw_updateConfig newConfig this))))
              (Option.bind (playStore newConfig) NodeMawConfig.timeout)),
            NodeMawConfig.userAgent =
              Some (spread (Required_NodeMawConfig.userAgent (NodeMaw.config (fst (NodeMaw_updateConfig newConfig this))))
              (Option.bind (playStore newConfig) NodeMawConfig.userAgent)),
            NodeMawConfig.headers =
              Some (spread (Required_NodeMawConfig.headers (NodeMaw.config (fst (NodeMaw_updateConfig newConfig this))))
              (Option.bind (playStore newConfig) NodeMawConfig.headers)),
            NodeMawConfig.retryEnabled =
              Some (spread (Required_NodeMawConfig.retryEnabled (NodeMaw.config (fst (NodeMaw_updateConfig newConfig this))))
              (Option.bind (playStore newConfig) NodeMawConfig.retryEnabled)),
            NodeMawConfig.retryAttempts =
              Some (spread (Required_NodeMawConfig.retryAttempts (NodeMaw.config (fst (NodeMaw_updateConfig newConfig this))))
              (Option.bind (playStore newConfig) NodeMawConfig.retryAttempts)),
            PlayStoreConfig.language = Option.bind (playStore newConfig) PlayStoreConfig.language,
            PlayStoreConfig.country = Option.bind (playStore newConfig) PlayStoreConfig.country,
            PlayStoreConfig.includeMetadata = Option.bind (playStore newConfig) PlayStoreConfig.includeMetadata\<rparr>]
        else [])"
  by (cases "appStore newConfig"; cases "playStore newConfig")
    (simp_all add: NodeMaw_updateConfig_def Let_def some_shared_key_def AppStoreClient_updateConfig_def PlayStoreClient_updateConfig_def AppStoreConfig_literal_def PlayStoreConfig_literal_def
      spread_spread_opt spread_opt_None_left spread_opt_Some_left)

lemma updateConfig_AppStore_config:
  "(present (appStore newConfig) \<or> some_shared_key newConfig \<longrightarrow>
        AppStoreClient.config (appStoreClient (fst (NodeMaw_updateConfig newConfig this))) =
          \<lparr>Required_NodeMawConfig.timeout =
              spread (Required_NodeMawConfig.timeout (NodeMaw.config (fst (NodeMaw_updateConfig newConfig this))))
              (Option.bind (appStore newConfig) NodeMawConfig.timeout),
            Required_NodeMawConfig.userAgent =
              spread (Required_NodeMawConfig.userAgent (NodeMaw.config (fst (NodeMaw_updateConfig newConfig this))))
              (Option.bind (appStore newConfig) NodeMawConfig.userAgent),
            Required_NodeMawConfig.headers =
              spread (Required_NodeMawConfig.headers (NodeMaw.config (fst (NodeMaw_updateConfig newConfig this))))
              (Option.bind (appStore newConfig) NodeMawConfig.headers),
            Required_NodeMawConfig.retryEnabled =
              spread (Required_NodeMawConfig.retryEnabled (NodeMaw.config (fst (NodeMaw_updateConfig newConfig this))))
              (Option.bind (appStore newConfig) NodeMawConfig.retryEnabled),
            Required_NodeMawConfig.retryAttempts =
              spread (Required_NodeMawConfig.retryAttempts (NodeMaw.config (fst (NodeMaw_updateConfig newConfig this))))
              (Option.bind (appStore newConfig) NodeMawConfig.retryAttempts),
            Required_AppStoreConfig.country =
              spread (Required_AppStoreConfig.country (AppStoreClient.config (appStoreClient this)))
                (Option.bind (appStore newConfig) AppStoreConfig.country),
            Required_AppStoreConfig.includeMetadata =
              spread (Required_AppStoreConfig.includeMetadata (AppStoreClient.config (appStoreClient this)))
                (Option.bind (appStore newConfig) AppStoreConfig.includeMetadata)\<rparr>
        \<and> client (appStoreClient (fst (NodeMaw_updateConfig newConfig this))) =
            axios_create (AppStoreClient.config (appStoreClient (fst (NodeMaw_updateConfig newConfig this)))))"
  by (cases "appStore newConfig")
    (simp_all add: NodeMaw_updateConfig_def Let_def some_shared_key_def AppStoreClient_updateConfig_def PlayStoreClient_updateConfig_def AppStoreConfig_literal_def PlayStoreConfig_literal_def
      spread_spread_opt spread_opt_None_left spread_opt_Some_left)

lemma updateConfig_PlayStore_config:
  "(present (playStore newConfig) \<or> some_shared_key newConfig \<longrightarrow>
        PlayStoreClient.config (playStoreClient (fst (NodeMaw_updateConfig newConfig this))) =
          \<lparr>Required_NodeMawConfig.timeout =
              spread (Required_NodeMawConfig.timeout (NodeMaw.config (fst (NodeMaw_updateConfig newConfig this))))
              (Option.bind (playStore newConfig) NodeMawConfig.timeout),
            Required_NodeMawConfig.userAgent =
              spread (Required_NodeMawConfig.userAgent (NodeMaw.config (fst (NodeMaw_updateConfig newConfig this))))
              (Option.bind (playStore newConfig) NodeMawConfig.userAgent),
            Required_NodeMawConfig.headers =
              spread (Required_NodeMawConfig.headers (NodeMaw.config (fst (NodeMaw_updateConfig newConfig this))))
              (Option.bind (playStore newConfig) NodeMawConfig.headers),
            Required_NodeMawConfig.retryEnabled =
              spread (Required_NodeMawConfig.retryEnabled (NodeMaw.config (fst (NodeMaw_updateConfig newConfig this))))
              (Option.bind (playStore newConfig) NodeMawConfig.retryEnabled),
            Required_NodeMawConfig.retryAttempts =
              spread (Required_NodeMawConfig.retryAttempts (NodeMaw.config (fst (NodeMaw_updateConfig newConfig this))))
              (Option.bind (playStore newConfig) NodeMawConfig.retryAttempts),
            Required_PlayStoreConfig.language =
              spread (Required_PlayStoreConfig.language (PlayStoreClient.config (playStoreClient this)))
                (Option.bind (playStore newConfig) PlayStoreConfig.language),
            Required_PlayStoreConfig.country =
              spread (Required_PlayStoreConfig.country (PlayStoreClient.config (playStoreClient this)))
                (Option.bind (playStore newConfig) PlayStoreConfig.country),
            Required_PlayStoreConfig.includeMetadata =
              spread (Required_PlayStoreConfig.includeMetadata (PlayStoreClient.config (playStoreClient this)))
                (Option.bind (playStore newConfig) PlayStoreConfig.includeMetadata)\<rparr>)"
  by (cases "playStore newConfig")
    (simp_all add: NodeMaw_updateConfig_def Let_def some_shared_key_def AppStoreClient_updateConfig_def PlayStoreClient_updateConfig_def AppStoreConfig_literal_def PlayStoreConfig_literal_def
      spread_spread_opt spread_opt_None_left spread_opt_Some_left)

lemma updateConfig_frame:
  "((\<exists>c. PushAppStore c \<in> set (snd (NodeMaw_updateConfig newConfig this)))
      \<longleftrightarrow> present (appStore newConfig) \<or> some_shared_key newConfig)
   \<and> ((\<exists>c. PushPlayStore c \<in> set (snd (NodeMaw_updateConfig newConfig this)))
      \<longleftrightarrow> present (playStore newConfig) \<or> some_shared_key newConfig)
   \<and> (some_shared_key newConfig \<and> appStore newConfig = None \<and> playStore newConfig = None \<longrightarrow>
        Required_NodeMawConfig.truncate
            (AppStoreClient.config (appStoreClient (fst (NodeMaw_updateConfig newConfig this))))
          = NodeMaw.config (fst (NodeMaw_updateConfig newConfig this))
        \<and> Required_NodeMawConfig.truncate
            (PlayStoreClient.config (playStoreClient (fst (NodeMaw_updateConfig newConfig this))))
          = NodeMaw.config (fst (NodeMaw_updateConfig newConfig this)))
   \<and> (NodeMawConfig.timeout newConfig = Some t \<and> appStore newConfig = None
        \<and> playStore newConfig = None \<longrightarrow>
        Required_NodeMawConfig.timeout
            (AppStoreClient.config (appStoreClient (fst (NodeMaw_updateConfig newConfig this)))) = t
        \<and> Required_NodeMawConfig.timeout
            (PlayStoreClient.config (playStoreClient (fst (NodeMaw_updateConfig newConfig this)))) = t)
   \<and> (\<not> present (playStore newConfig) \<and> \<not> some_shared_key newConfig \<longrightarrow>
        playStoreClient (fst (NodeMaw_updateConfig newConfig this)) = playStoreClient this)
   \<and> (\<not> present (appStore newConfig) \<and> \<not> some_shared_key newConfig \<longrightarrow>
        appStoreClient (fst (NodeMaw_updateConfig newConfig this)) = appStoreClient this)"
  by (cases "appStore newConfig"; cases "playStore newConfig")
    (auto simp: NodeMaw_updateConfig_def Let_def some_shared_key_def
      AppStoreClient_updateConfig_def PlayStoreClient_updateConfig_def
      AppStoreConfig_literal_def PlayStoreConfig_literal_def
      Required_NodeMawConfig.truncate_def present_def split: option.splits)

text \<open>
  Claim C5. \<open>updateConfig\<close> of the facade replaces the shared configuration by the old
  one overridden, field by field, by the partial. It calls the \<open>updateConfig\<close> of a store
  client exactly when the partial has that store's override or a shared field, and
  passes it the new shared configuration overridden by that store's override; the client
  then holds these shared fields, and its own fields overridden by the override. With
  shared fields only, the shared part of both clients' configurations becomes the
  facade's new shared configuration, so a new timeout reaches both. With no shared field
  and no override for a store, that store's client is unchanged.
\<close>

theorem updateConfig_pushes:
  "NodeMaw.config (fst (NodeMaw_updateConfig newConfig this)) =
       \<lparr>Required_NodeMawConfig.timeout =
           spread (Required_NodeMawConfig.timeout (NodeMaw.config this)) (NodeMawConfig.timeout newConfig),
         Required_NodeMawConfig.userAgent =
           spread (Required_NodeMawConfig.userAgent (NodeMaw.config this)) (NodeMawConfig.userAgent newConfig),
         Required_NodeMawConfig.headers =
           spread (Required_NodeMawConfig.headers (NodeMaw.config this)) (NodeMawConfig.headers newConfig),
         Required_NodeMawConfig.retryEnabled =
           spread (Required_NodeMawConfig.retryEnabled (NodeMaw.config this)) (NodeMawConfig.retryEnabled newConfig),
         Required_NodeMawConfig.retryAttempts =
           spread (Required_NodeMawConfig.retryAttempts (NodeMaw.config this)) (NodeMawConfig.retryAttempts newConfig)\<rparr>
   \<and> snd (NodeMaw_updateConfig newConfig this) =
       (if present (appStore newConfig) \<or> some_shared_key newConfig then
          [PushAppStore
             \<lparr>NodeMawConfig.timeout =
              Some (spread (Required_NodeMawConfig.timeout (NodeMaw.config (fst (NodeMaw_updateConfig newConfig this))))
              (Option.bind (appStore newConfig) NodeMawConfig.timeout)),
            NodeMawConfig.userAgent =
              Some (spread (Required_NodeMawConfig.userAgent (NodeMaw.config (fst (NodeMaw_updateConfig newConfig this))))
              (Option.bind (appStore newConfig) NodeMawConfig.userAgent)),
            NodeMawConfig.headers =
              Some (spread (Required_NodeMawConfig.headers (NodeMaw.config (fst (NodeMaw_updateConfig newConfig this))))
              (Option.bind (appStore newConfig) NodeMawConfig.headers)),
            NodeMawConfig.retryEnabled =
              Some (spread (Required_NodeMawConfig.retryEnabled (NodeMaw.config (fst (NodeMaw_updateConfig newConfig this))))
              (Option.bind (appStore newConfig) NodeMawConfig.retryEnabled)),
            NodeMawConfig.retryAttempts =
              Some (spread (Required_NodeMawConfig.retryAttempts (NodeMaw.config (fst (NodeMaw_updateConfig newConfig this))))
              (Option.bind (appStore newConfig) NodeMawConfig.retryAttempts)),
            AppStoreConfig.country = Option.bind (appStore newConfig) AppStoreConfig.country,
            AppStoreConfig.includeMetadata = Option.bind (appStore newConfig) AppStoreConfig.includeMetadata\<rparr>]
        else [])
       @ (if present (playStore newConfig) \<or> some_shared_key newConfig then
          [PushPlayStore
             \<lparr>NodeMawConfig.timeout =
              Some (spread (Required_NodeMawConfig.timeout (NodeMaw.config (fst (NodeMaw_updateConfig newConfig this))))
              (Option.bind (playStore newConfig) NodeMawConfig.timeout)),
            NodeMawConfig.userAgent =
              Some (spread (Required_NodeMawConfig.userAgent (NodeMaw.config (fst (NodeMaw_updateConfig newConfig this))))
              (Option.bind (playStore newConfig) NodeMawConfig.userAgent)),
            NodeMawConfig.headers =
              Some (spread (Required_NodeMawConfig.headers (NodeMaw.config (fst (NodeMaw_updateConfig newConfig this))))
              (Option.bind (playStore newConfig) NodeMawConfig.headers)),
            NodeMawConfig.retryEnabled =
              Some (spread (Required_NodeMawConfig.retryEnabled (NodeMaw.config (fst (NodeMaw_updateConfig newConfig this))))
              (Option.bind (playStore newConfig) NodeMawConfig.retryEnabled)),
            NodeMawConfig.retryAttempts =
              Some (spread (Required_NodeMawConfig.retryAttempts (NodeMaw.config (fst (NodeMaw_updateConfig newConfig this))))
              (Option.bind (playStore newConfig) NodeMawConfig.retryAttempts)),
            PlayStoreConfig.language = Option.bind (playStore newConfig) PlayStoreConfig.language,
            PlayStoreConfig.country = Option.bind (playStore newConfig) PlayStoreConfig.country,
            PlayStoreConfig.includeMetadata = Option.bind (playStore newConfig) PlayStoreConfig.includeMetadata\<rparr>]
        else [])
   \<and> (present (appStore newConfig) \<or> some_shared_key newConfig \<longrightarrow>
        AppStoreClient.config (appStoreClient (fst (NodeMaw_updateConfig newConfig this))) =
          \<lparr>Required_NodeMawConfig.timeout =
              spread (Required_NodeMawConfig.timeout (NodeMaw.config (fst (NodeMaw_updateConfig newConfig this))))
              (Option.bind (appStore newConfig) NodeMawConfig.timeout),
            Required_NodeMawConfig.userAgent =
              spread (Required_NodeMawConfig.userAgent (NodeMaw.config (fst (NodeMaw_updateConfig newConfig this))))
              (Option.bind (appStore newConfig) NodeMawConfig.userAgent),
            Required_NodeMawConfig.headers =
              spread (Required_NodeMawConfig.headers (NodeMaw.config (fst (NodeMaw_updateConfig newConfig this))))
              (Option.bind (appStore newConfig) NodeMawConfig.headers),
            Required_NodeMawConfig.retryEnabled =
              spread (Required_NodeMawConfig.retryEnabled (NodeMaw.config (fst (NodeMaw_updateConfig newConfig this))))
              (Option.bind (appStore newConfig) NodeMawConfig.retryEnabled),
            Required_NodeMawConfig.retryAttempts =
              spread (Required_NodeMawConfig.retryAttempts (NodeMaw.config (fst (NodeMaw_updateConfig newConfig this))))
              (Option.bind (appStore newConfig) NodeMawConfig.retryAttempts),
            Required_AppStoreConfig.country =
              spread (Required_AppStoreConfig.country (AppStoreClient.config (appStoreClient this)))
                (Option.bind (appStore newConfig) AppStoreConfig.country),
            Required_AppStoreConfig.includeMetadata =
              spread (Required_AppStoreConfig.includeMetadata (AppStoreClient.config (appStoreClient this)))
                (Option.bind (appStore newConfig) AppStoreConfig.includeMetadata)\<rparr>
        \<and> client (appStoreClient (fst (NodeMaw_updateConfig newConfig this))) =
            axios_create (AppStoreClient.config (appStoreClient (fst (NodeMaw_updateConfig newConfig this)))))
   \<and> (present (playStore newConfig) \<or> some_shared_key newConfig \<longrightarrow>
        PlayStoreClient.config (playStoreClient (fst (NodeMaw_updateConfig newConfig this))) =
          \<lparr>Required_NodeMawConfig.timeout =
              spread (Required_NodeMawConfig.timeout (NodeMaw.config (fst (NodeMaw_updateConfig newConfig this))))
              (Option.bind (playStore newConfig) NodeMawConfig.timeout),
            Required_NodeMawConfig.userAgent =
              spread (Required_NodeMawConfig.userAgent (NodeMaw.config (fst (NodeMaw_updateConfig newConfig this))))
              (Option.bind (playStore newConfig) NodeMawConfig.userAgent),
            Required_NodeMawConfig.headers =
              spread (Required_NodeMawConfig.headers (NodeMaw.config (fst (NodeMaw_updateConfig newConfig this))))
              (Option.bind (playStore newConfig) NodeMawConfig.headers),
            Required_NodeMawConfig.retryEnabled =
              spread (Required_NodeMawConfig.retryEnabled (NodeMaw.config (fst (NodeMaw_updateConfig newConfig this))))
              (Option.bind (playStore newConfig) NodeMawConfig.retryEnabled),
            Required_NodeMawConfig.retryAttempts =
              spread (Required_NodeMawConfig.retryAttempts (NodeMaw.config (fst (NodeMaw_updateConfig newConfig this))))
              (Option.bind (playStore newConfig) NodeMawConfig.retryAttempts),
            Required_PlayStoreConfig.language =
              spread (Required_PlayStoreConfig.language (PlayStoreClient.config (playStoreClient this)))
                (Option.bind (playStore newConfig) PlayStoreConfig.language),
            Required_PlayStoreConfig.country =
              spread (Required_PlayStoreConfig.country (PlayStoreClient.config (playStoreClient this)))
                (Option.bind (playStore newConfig) PlayStoreConfig.country),
            Required_PlayStoreConfig.includeMetadata =
              spread (Required_PlayStoreConfig.includeMetadata (PlayStoreClient.config (playStoreClient this)))
                (Option.bind (playStore newConfig) PlayStoreConfig.includeMetadata)\<rparr>)
   \<and> ((\<exists>c. PushAppStore c \<in> set (snd (NodeMaw_updateConfig newConfig this)))
      \<longleftrightarrow> present (appStore newConfig) \<or> some_shared_key newConfig)
   \<and> ((\<exists>c. PushPlayStore c \<in> set (snd (NodeMaw_updateConfig newConfig this)))
      \<longleftrightarrow> present (playStore newConfig) \<or> some_shared_key newConfig)
   \<and> (some_shared_key newConfig \<and> appStore newConfig = None \<and> playStore newConfig = None \<longrightarrow>
        Required_NodeMawConfig.truncate
            (AppStoreClient.config (appStoreClient (fst (NodeMaw_updateConfig newConfig this))))
          = NodeMaw.config (fst (NodeMaw_updateConfig newConfig this))
        \<and> Required_NodeMawConfig.truncate
            (PlayStoreClient.config (playStoreClient (fst (NodeMaw_updateConfig newConfig this))))
          = NodeMaw.config (fst (NodeMaw_updateConfig newConfig this)))
   \<and> (NodeMawConfig.timeout newConfig = Some t \<and> appStore newConfig = None
        \<and> playStore newConfig = None \<longrightarrow>
        Required_NodeMawConfig.timeout
            (AppStoreClient.config (appStoreClient (fst (NodeMaw_updateConfig newConfig this)))) = t
        \<and> Required_NodeMawConfig.timeout
            (PlayStoreClient.config (playStoreClient (fst (NodeMaw_updateConfig newConfig this)))) = t)
   \<and> (\<not> present (playStore newConfig) \<and> \<not> some_shared_key newConfig \<longrightarrow>
        playStoreClient (fst (NodeMaw_updateConfig newConfig this)) = playStoreClient this)
   \<and> (\<not> present (appStore newConfig) \<and> \<not> some_shared_key newConfig \<longrightarrow>
        appStoreClient (fst (NodeMaw_updateConfig newConfig this)) = appStoreClient this)"
  using updateConfig_merged [of newConfig this] updateConfig_log [of newConfig this]
    updateConfig_AppStore_config [of newConfig this] updateConfig_PlayStore_config [of newConfig this]
    updateConfig_frame [of newConfig this t]
  by (intro conjI) (elim conjE, assumption)+



lemma replace_node_maw_appstore:
  "replace ''node-maw/1.0.0'' ''node-maw'' ''node-maw-appstore'' = ''node-maw-appstore/1.0.0''"
  by simp

lemma replace_node_maw_playstore:
  "replace ''node-maw/1.0.0'' ''node-maw'' ''node-maw-playstore'' = ''node-maw-playstore/1.0.0''"
  by simp

lemmas facade_eval =
  NodeMaw_new_def NodeMaw_updateConfig_def some_shared_key_def
  AppStoreClient_new_def PlayStoreClient_new_def
  AppStoreClient_updateConfig_def PlayStoreClient_updateConfig_def
  AppStoreConfig_literal_def PlayStoreConfig_literal_def
  empty_UnifiedNodeMawConfig_def empty_AppStoreConfig_def empty_PlayStoreConfig_def
  axios_create_def Let_def

text \<open>
  Claim C5 at \<open>{timeout: 8000}\<close>, at \<open>{appStore: {country: 'uk'}}\<close>, at
  \<open>{playStore: {language: 'fr'}}\<close> and at \<open>{retryEnabled: false}\<close>.
\<close>

theorem updateConfig_pushes_witness:
  "(some_shared_key (empty_UnifiedNodeMawConfig\<lparr>NodeMawConfig.timeout := Some 8000\<rparr>)
      \<and> NodeMawConfig.timeout (empty_UnifiedNodeMawConfig\<lparr>NodeMawConfig.timeout := Some 8000\<rparr>)
          = Some 8000
      \<and> appStore (empty_UnifiedNodeMawConfig\<lparr>NodeMawConfig.timeout := Some 8000\<rparr>) = None
      \<and> playStore (empty_UnifiedNodeMawConfig\<lparr>NodeMawConfig.timeout := Some 8000\<rparr>) = None)
   \<and> Required_NodeMawConfig.timeout (AppStoreClient.config (appStoreClient (fst
        (NodeMaw_updateConfig (empty_UnifiedNodeMawConfig\<lparr>NodeMawConfig.timeout := Some 8000\<rparr>)
           (NodeMaw_new empty_UnifiedNodeMawConfig))))) = 8000
   \<and> Required_NodeMawConfig.timeout (PlayStoreClient.config (playStoreClient (fst
        (NodeMaw_updateConfig (empty_UnifiedNodeMawConfig\<lparr>NodeMawConfig.timeout := Some 8000\<rparr>)
           (NodeMaw_new empty_UnifiedNodeMawConfig))))) = 8000
   \<and> Required_NodeMawConfig.truncate (AppStoreClient.config (appStoreClient (fst
        (NodeMaw_updateConfig (empty_UnifiedNodeMawConfig\<lparr>NodeMawConfig.timeout := Some 8000\<rparr>)
           (NodeMaw_new empty_UnifiedNodeMawConfig)))))
       = Required_NodeMawConfig.truncate (PlayStoreClient.config (playStoreClient (fst
        (NodeMaw_updateConfig (empty_UnifiedNodeMawConfig\<lparr>NodeMawConfig.timeout := Some 8000\<rparr>)
           (NodeMaw_new empty_UnifiedNodeMawConfig)))))
   \<and> (\<not> present (playStore (empty_UnifiedNodeMawConfig
           \<lparr>appStore := Some (empty_AppStoreConfig\<lparr>AppStoreConfig.country := Some ''uk''\<rparr>)\<rparr>))
      \<and> \<not> some_shared_key (empty_UnifiedNodeMawConfig
           \<lparr>appStore := Some (empty_AppStoreConfig\<lparr>AppStoreConfig.country := Some ''uk''\<rparr>)\<rparr>))
   \<and> playStoreClient (fst (NodeMaw_updateConfig (empty_UnifiedNodeMawConfig
           \<lparr>appStore := Some (empty_AppStoreConfig\<lparr>AppStoreConfig.country := Some ''uk''\<rparr>)\<rparr>)
           (NodeMaw_new empty_UnifiedNodeMawConfig)))
       = playStoreClient (NodeMaw_new empty_UnifiedNodeMawConfig)
   \<and> Required_AppStoreConfig.country (AppStoreClient.config (appStoreClient (fst
        (NodeMaw_updateConfig (empty_UnifiedNodeMawConfig
           \<lparr>appStore := Some (empty_AppStoreConfig\<lparr>AppStoreConfig.country := Some ''uk''\<rparr>)\<rparr>)
           (NodeMaw_new empty_UnifiedNodeMawConfig))))) = ''uk''
   \<and> (\<not> present (appStore (empty_UnifiedNodeMawConfig
           \<lparr>playStore := Some (empty_PlayStoreConfig\<lparr>PlayStoreConfig.language := Some ''fr''\<rparr>)\<rparr>))
      \<and> \<not> some_shared_key (empty_UnifiedNodeMawConfig
           \<lparr>playStore := Some (empty_PlayStoreConfig\<lparr>PlayStoreConfig.language := Some ''fr''\<rparr>)\<rparr>))
   \<and> appStoreClient (fst (NodeMaw_updateConfig (empty_UnifiedNodeMawConfig
           \<lparr>playStore := Some (empty_PlayStoreConfig\<lparr>PlayStoreConfig.language := Some ''fr''\<rparr>)\<rparr>)
           (NodeMaw_new empty_UnifiedNodeMawConfig)))
       = appStoreClient (NodeMaw_new empty_UnifiedNodeMawConfig)
   \<and> Required_PlayStoreConfig.language (PlayStoreClient.config (playStoreClient (fst
        (NodeMaw_updateConfig (empty_UnifiedNodeMawConfig
           \<lparr>playStore := Some (empty_PlayStoreConfig\<lparr>PlayStoreConfig.language := Some ''fr''\<rparr>)\<rparr>)
           (NodeMaw_new empty_UnifiedNodeMawConfig))))) = ''fr''
   \<and> (present (appStore (empty_UnifiedNodeMawConfig\<lparr>NodeMawConfig.retryEnabled := Some False\<rparr>)) \<or> some_shared_key (empty_UnifiedNodeMawConfig\<lparr>NodeMawConfig.retryEnabled := Some False\<rparr>))
   \<and> (present (playStore (empty_UnifiedNodeMawConfig\<lparr>NodeMawConfig.retryEnabled := Some False\<rparr>)) \<or> some_shared_key (empty_UnifiedNodeMawConfig\<lparr>NodeMawConfig.retryEnabled := Some False\<rparr>))
   \<and> Required_NodeMawConfig.retryEnabled (NodeMaw.config (fst
        (NodeMaw_updateConfig (empty_UnifiedNodeMawConfig\<lparr>NodeMawConfig.retryEnabled := Some False\<rparr>)
           (NodeMaw_new empty_UnifiedNodeMawConfig)))) = False
   \<and> Required_NodeMawConfig.retryEnabled (AppStoreClient.config (appStoreClient (fst
        (NodeMaw_updateConfig (empty_UnifiedNodeMawConfig\<lparr>NodeMawConfig.retryEnabled := Some False\<rparr>)
           (NodeMaw_new empty_UnifiedNodeMawConfig))))) = False
   \<and> Required_NodeMawConfig.retryEnabled (PlayStoreClient.config (playStoreClient (fst
        (NodeMaw_updateConfig (empty_UnifiedNodeMawConfig\<lparr>NodeMawConfig.retryEnabled := Some False\<rparr>)
           (NodeMaw_new empty_UnifiedNodeMawConfig))))) = False
   \<and> snd (NodeMaw_updateConfig (empty_UnifiedNodeMawConfig\<lparr>NodeMawConfig.retryEnabled := Some False\<rparr>)
           (NodeMaw_new empty_UnifiedNodeMawConfig)) =
       [PushAppStore
          \<lparr>NodeMawConfig.timeout = Some 10000, NodeMawConfig.userAgent = Some ''node-maw/1.0.0'',
            NodeMawConfig.headers = Some Map.empty, NodeMawConfig.retryEnabled = Some False,
            NodeMawConfig.retryAttempts = Some 3,
            AppStoreConfig.country = None, AppStoreConfig.includeMetadata = None\<rparr>,
        PushPlayStore
          \<lparr>NodeMawConfig.timeout = Some 10000, NodeMawConfig.userAgent = Some ''node-maw/1.0.0'',
            NodeMawConfig.headers = Some Map.empty, NodeMawConfig.retryEnabled = Some False,
            NodeMawConfig.retryAttempts = Some 3,
            PlayStoreConfig.language = None, PlayStoreConfig.country = None,
            PlayStoreConfig.includeMetadata = None\<rparr>]"
proof -
  let ?shared = "empty_UnifiedNodeMawConfig\<lparr>NodeMawConfig.timeout := Some 8000\<rparr>"
  let ?onlyA = "empty_UnifiedNodeMawConfig
           \<lparr>appStore := Some (empty_AppStoreConfig\<lparr>AppStoreConfig.country := Some ''uk''\<rparr>)\<rparr>"
  let ?onlyP = "empty_UnifiedNodeMawConfig
           \<lparr>playStore := Some (empty_PlayStoreConfig\<lparr>PlayStoreConfig.language := Some ''fr''\<rparr>)\<rparr>"
  let ?maw = "NodeMaw_new empty_UnifiedNodeMawConfig"
  have h1: "some_shared_key ?shared \<and> NodeMawConfig.timeout ?shared = Some 8000
      \<and> appStore ?shared = None \<and> playStore ?shared = None"
    by (simp add: empty_UnifiedNodeMawConfig_def some_shared_key_def)
  have h2: "\<not> present (playStore ?onlyA) \<and> \<not> some_shared_key ?onlyA"
    by (simp add: empty_UnifiedNodeMawConfig_def some_shared_key_def)
  have h3: "\<not> present (appStore ?onlyP) \<and> \<not> some_shared_key ?onlyP"
    by (simp add: empty_UnifiedNodeMawConfig_def some_shared_key_def)
  note inst1 = updateConfig_pushes [where newConfig = "?shared" and this = "?maw" and t = 8000]
  note inst2 = updateConfig_pushes [where newConfig = "?onlyA" and this = "?maw" and t = 8000]
  note inst3 = updateConfig_pushes [where newConfig = "?onlyP" and this = "?maw" and t = 8000]
  from inst1 h1
  have a: "Required_NodeMawConfig.timeout
        (AppStoreClient.config (appStoreClient (fst (NodeMaw_updateConfig ?shared ?maw)))) = 8000
      \<and> Required_NodeMawConfig.timeout
        (PlayStoreClient.config (playStoreClient (fst (NodeMaw_updateConfig ?shared ?maw)))) = 8000"
    by blast
  from inst1 h1
  have "Required_NodeMawConfig.truncate
            (AppStoreClient.config (appStoreClient (fst (NodeMaw_updateConfig ?shared ?maw))))
          = NodeMaw.config (fst (NodeMaw_updateConfig ?shared ?maw))
        \<and> Required_NodeMawConfig.truncate
            (PlayStoreClient.config (playStoreClient (fst (NodeMaw_updateConfig ?shared ?maw))))
          = NodeMaw.config (fst (NodeMaw_updateConfig ?shared ?maw))"
    by blast
  then have a': "Required_NodeMawConfig.truncate
            (AppStoreClient.config (appStoreClient (fst (NodeMaw_updateConfig ?shared ?maw))))
          = Required_NodeMawConfig.truncate
            (PlayStoreClient.config (playStoreClient (fst (NodeMaw_updateConfig ?shared ?maw))))"
    by simp
  from inst2 h2
  have b: "playStoreClient (fst (NodeMaw_updateConfig ?onlyA ?maw)) = playStoreClient ?maw"
    by blast
  from inst3 h3
  have c: "appStoreClient (fst (NodeMaw_updateConfig ?onlyP ?maw)) = appStoreClient ?maw"
    by blast
  have d: "Required_AppStoreConfig.country
        (AppStoreClient.config (appStoreClient (fst (NodeMaw_updateConfig ?onlyA ?maw)))) = ''uk''"
    by (simp add: facade_eval)
  have e: "Required_PlayStoreConfig.language
        (PlayStoreClient.config (playStoreClient (fst (NodeMaw_updateConfig ?onlyP ?maw)))) = ''fr''"
    by (simp add: facade_eval)
  let ?re = "empty_UnifiedNodeMawConfig\<lparr>NodeMawConfig.retryEnabled := Some False\<rparr>"
  have h4: "some_shared_key ?re"
    by (simp add: empty_UnifiedNodeMawConfig_def some_shared_key_def)
  have old: "NodeMaw.config ?maw =
      \<lparr>Required_NodeMawConfig.timeout = 10000, Required_NodeMawConfig.userAgent = ''node-maw/1.0.0'',
        Required_NodeMawConfig.headers = Map.empty, Required_NodeMawConfig.retryEnabled = True,
        Required_NodeMawConfig.retryAttempts = 3\<rparr>"
    by (simp add: NodeMaw_new_def empty_UnifiedNodeMawConfig_def Let_def)
  have sel: "NodeMawConfig.timeout ?re = None" "NodeMawConfig.userAgent ?re = None"
    "NodeMawConfig.headers ?re = None" "NodeMawConfig.retryEnabled ?re = Some False"
    "NodeMawConfig.retryAttempts ?re = None" "appStore ?re = None" "playStore ?re = None"
    by (simp_all add: empty_UnifiedNodeMawConfig_def)
  note inst4 = updateConfig_pushes [where newConfig = "?re" and this = "?maw" and t = 8000]
  from inst4
  have m: "NodeMaw.config (fst (NodeMaw_updateConfig ?re ?maw)) =
      \<lparr>Required_NodeMawConfig.timeout = 10000, Required_NodeMawConfig.userAgent = ''node-maw/1.0.0'',
        Required_NodeMawConfig.headers = Map.empty, Required_NodeMawConfig.retryEnabled = False,
        Required_NodeMawConfig.retryAttempts = 3\<rparr>"
    by (simp add: old sel)
  from inst4 h4
  have f: "Required_NodeMawConfig.retryEnabled
        (AppStoreClient.config (appStoreClient (fst (NodeMaw_updateConfig ?re ?maw)))) = False"
    and g: "Required_NodeMawConfig.retryEnabled
        (PlayStoreClient.config (playStoreClient (fst (NodeMaw_updateConfig ?re ?maw)))) = False"
    by (simp_all add: m sel)
  from inst4 h4
  have l: "snd (NodeMaw_updateConfig ?re ?maw) =
       [PushAppStore
          \<lparr>NodeMawConfig.timeout = Some 10000, NodeMawConfig.userAgent = Some ''node-maw/1.0.0'',
            NodeMawConfig.headers = Some Map.empty, NodeMawConfig.retryEnabled = Some False,
            NodeMawConfig.retryAttempts = Some 3,
            AppStoreConfig.country = None, AppStoreConfig.includeMetadata = None\<rparr>,
        PushPlayStore
          \<lparr>NodeMawConfig.timeout = Some 10000, NodeMawConfig.userAgent = Some ''node-maw/1.0.0'',
            NodeMawConfig.headers = Some Map.empty, NodeMawConfig.retryEnabled = Some False,
            NodeMawConfig.retryAttempts = Some 3,
            PlayStoreConfig.language = None, PlayStoreConfig.country = None,
            PlayStoreConfig.includeMetadata = None\<rparr>]"
    by (simp add: m sel)
  from m have m': "Required_NodeMawConfig.retryEnabled
      (NodeMaw.config (fst (NodeMaw_updateConfig ?re ?maw))) = False"
    by simp
  from h1 h2 h3 h4 a a' b c d e m' f g l show ?thesis by blast
qed

text \<open>The update of the test suite: a shared field and both overrides.\<close>

lemma updateConfig_shared_and_overrides:
  "Required_NodeMawConfig.timeout (AppStoreClient.config (appStoreClient (fst
      (NodeMaw_updateConfig
         (empty_UnifiedNodeMawConfig
            \<lparr>NodeMawConfig.timeout := Some 8000,
              appStore := Some (empty_AppStoreConfig\<lparr>AppStoreConfig.country := Some ''uk''\<rparr>),
              playStore := Some (empty_PlayStoreConfig\<lparr>PlayStoreConfig.language := Some ''fr''\<rparr>)\<rparr>)
         (NodeMaw_new empty_UnifiedNodeMawConfig))))) = 8000"
  "Required_AppStoreConfig.country (AppStoreClient.config (appStoreClient (fst
      (NodeMaw_updateConfig
         (empty_UnifiedNodeMawConfig
            \<lparr>NodeMawConfig.timeout := Some 8000,
              appStore := Some (empty_AppStoreConfig\<lparr>AppStoreConfig.country := Some ''uk''\<rparr>),
              playStore := Some (empty_PlayStoreConfig\<lparr>PlayStoreConfig.language := Some ''fr''\<rparr>)\<rparr>)
         (NodeMaw_new empty_UnifiedNodeMawConfig))))) = ''uk''"
  "Required_NodeMawConfig.timeout (PlayStoreClient.config (playStoreClient (fst
      (NodeMaw_updateConfig
         (empty_UnifiedNodeMawConfig
            \<lparr>NodeMawConfig.timeout := Some 8000,
              appStore := Some (empty_AppStoreConfig\<lparr>AppStoreConfig.country := Some ''uk''\<rparr>),
              playStore := Some (empty_PlayStoreConfig\<lparr>PlayStoreConfig.language := Some ''fr''\<rparr>)\<rparr>)
         (NodeMaw_new empty_UnifiedNodeMawConfig))))) = 8000"
  "Required_PlayStoreConfig.language (PlayStoreClient.config (playStoreClient (fst
      (NodeMaw_updateConfig
         (empty_UnifiedNodeMawConfig
            \<lparr>NodeMawConfig.timeout := Some 8000,
              appStore := Some (empty_AppStoreConfig\<lparr>AppStoreConfig.country := Some ''uk''\<rparr>),
              playStore := Some (empty_PlayStoreConfig\<lparr>PlayStoreConfig.language := Some ''fr''\<rparr>)\<rparr>)
         (NodeMaw_new empty_UnifiedNodeMawConfig))))) = ''fr''"
  by (simp_all add: facade_eval)

text \<open>After an update of a shared field the clients hold the shared user agent, not their own.\<close>

lemma updateConfig_resets_userAgent:
  "Required_NodeMawConfig.userAgent (AppStoreClient.config (appStoreClient
      (NodeMaw_new empty_UnifiedNodeMawConfig))) = ''node-maw-appstore/1.0.0''"
  "Required_NodeMawConfig.userAgent (AppStoreClient.config (appStoreClient (fst
      (NodeMaw_updateConfig (empty_UnifiedNodeMawConfig\<lparr>NodeMawConfig.timeout := Some 8000\<rparr>)
         (NodeMaw_new empty_UnifiedNodeMawConfig))))) = ''node-maw/1.0.0''"
  by (simp_all add: facade_eval)

text \<open>
  Claim C6. At construction each client's configuration is that store's defaults,
  overridden by the shared fields given (the user agent with the store's token in place
  of \<open>node-maw\<close>), overridden by that store's own override; the override of the other
  store has no effect on it. With shared \<open>{timeout: 5000}\<close> and the App Store override
  \<open>{country: "ca"}\<close>, the App Store client has timeout 5000, country "ca" and its
  defaults, and the Play Store client has timeout 5000 and its defaults.
\<close>

theorem construction_merge:
  "AppStoreClient.config (appStoreClient (NodeMaw_new conf)) = spec_AppStore_config conf
   \<and> PlayStoreClient.config (playStoreClient (NodeMaw_new conf)) = spec_PlayStore_config conf
   \<and> AppStoreClient.config (appStoreClient (NodeMaw_new (conf\<lparr>playStore := p\<rparr>)))
       = AppStoreClient.config (appStoreClient (NodeMaw_new conf))
   \<and> PlayStoreClient.config (playStoreClient (NodeMaw_new (conf\<lparr>appStore := a\<rparr>)))
       = PlayStoreClient.config (playStoreClient (NodeMaw_new conf))
   \<and> AppStoreClient.config (appStoreClient (NodeMaw_new
         (empty_UnifiedNodeMawConfig
            \<lparr>NodeMawConfig.timeout := Some 5000,
              appStore := Some (empty_AppStoreConfig\<lparr>AppStoreConfig.country := Some ''ca''\<rparr>)\<rparr>)))
       = \<lparr>Required_NodeMawConfig.timeout = 5000,
          Required_NodeMawConfig.userAgent = ''node-maw-appstore/1.0.0'',
          Required_NodeMawConfig.headers = Map.empty,
          Required_NodeMawConfig.retryEnabled = True,
          Required_NodeMawConfig.retryAttempts = 3,
          Required_AppStoreConfig.country = ''ca'',
          Required_AppStoreConfig.includeMetadata = False\<rparr>
   \<and> PlayStoreClient.config (playStoreClient (NodeMaw_new
         (empty_UnifiedNodeMawConfig
            \<lparr>NodeMawConfig.timeout := Some 5000,
              appStore := Some (empty_AppStoreConfig\<lparr>AppStoreConfig.country := Some ''ca''\<rparr>)\<rparr>)))
       = \<lparr>Required_NodeMawConfig.timeout = 5000,
          Required_NodeMawConfig.userAgent = ''node-maw-playstore/1.0.0'',
          Required_NodeMawConfig.headers = Map.empty,
          Required_NodeMawConfig.retryEnabled = True,
          Required_NodeMawConfig.retryAttempts = 3,
          Required_PlayStoreConfig.language = ''en'',
          Required_PlayStoreConfig.country = ''us'',
          Required_PlayStoreConfig.includeMetadata = False\<rparr>"
proof (intro conjI)
  show "AppStoreClient.config (appStoreClient (NodeMaw_new conf)) = spec_AppStore_config conf"
    by (cases "appStore conf"; cases "NodeMawConfig.userAgent conf")
      (simp_all add: NodeMaw_new_def AppStoreClient_new_def AppStoreConfig_literal_def Let_def
        spec_AppStore_config_def spec_override_AppStore_def spec_override_shared_def
        spec_AppStore_defaults_def spread_def nullish_def spread_opt_def
        split: option.splits)
  show "PlayStoreClient.config (playStoreClient (NodeMaw_new conf)) = spec_PlayStore_config conf"
    by (cases "playStore conf"; cases "NodeMawConfig.userAgent conf")
      (simp_all add: NodeMaw_new_def PlayStoreClient_new_def PlayStoreConfig_literal_def Let_def
        spec_PlayStore_config_def spec_override_PlayStore_def spec_override_shared_def
        spec_PlayStore_defaults_def spread_def nullish_def spread_opt_def
        split: option.splits)
  show "AppStoreClient.config (appStoreClient (NodeMaw_new (conf\<lparr>playStore := p\<rparr>)))
       = AppStoreClient.config (appStoreClient (NodeMaw_new conf))"
    by (simp add: NodeMaw_new_def Let_def)
  show "PlayStoreClient.config (playStoreClient (NodeMaw_new (conf\<lparr>appStore := a\<rparr>)))
       = PlayStoreClient.config (playStoreClient (NodeMaw_new conf))"
    by (simp add: NodeMaw_new_def Let_def)
  show "AppStoreClient.config (appStoreClient (NodeMaw_new
         (empty_UnifiedNodeMawConfig
            \<lparr>NodeMawConfig.timeout := Some 5000,
              appStore := Some (empty_AppStoreConfig\<lparr>AppStoreConfig.country := Some ''ca''\<rparr>)\<rparr>)))
       = \<lparr>Required_NodeMawConfig.timeout = 5000,
          Required_NodeMawConfig.userAgent = ''node-maw-appstore/1.0.0'',
          Required_NodeMawConfig.headers = Map.empty,
          Required_NodeMawConfig.retryEnabled = True,
          Required_NodeMawConfig.retryAttempts = 3,
          Required_AppStoreConfig.country = ''ca'',
          Required_AppStoreConfig.includeMetadata = False\<rparr>"
    by (simp add: facade_eval)
  show "PlayStoreClient.config (playStoreClient (NodeMaw_new
         (empty_UnifiedNodeMawConfig
            \<lparr>NodeMawConfig.timeout := Some 5000,
              appStore := Some (empty_AppStoreConfig\<lparr>AppStoreConfig.country := Some ''ca''\<rparr>)\<rparr>)))
       = \<lparr>Required_NodeMawConfig.timeout = 5000,
          Required_NodeMawConfig.userAgent = ''node-maw-playstore/1.0.0'',
          Required_NodeMawConfig.headers = Map.empty,
          Required_NodeMawConfig.retryEnabled = True,
          Required_NodeMawConfig.retryAttempts = 3,
          Required_PlayStoreConfig.language = ''en'',
          Required_PlayStoreConfig.country = ''us'',
          Required_PlayStoreConfig.includeMetadata = False\<rparr>"
    by (simp add: facade_eval)
qed

end
